theory Spec2Isabelle
  imports Complex_Main
begin

section \<open>Perception policy training: a shallow embedding\<close>

text \<open>
  The development follows \<^verbatim>\<open>scripts/perception_policy_train.py\<close> (functions
  \<^verbatim>\<open>load_dataset\<close> and \<^verbatim>\<open>main\<close>) and the helpers it calls from
  \<^verbatim>\<open>affordance_gym/utils.py\<close> (\<^verbatim>\<open>save_arguments\<close>, \<^verbatim>\<open>plot_loss\<close>,
  \<^verbatim>\<open>plot_scatter\<close>, \<^verbatim>\<open>plot_latent_distributions\<close>).

  Conventions.
  \<^item> A numeric array is a nested list of floating-point values (one list per row); arrays
    produced by numpy and torch are rectangular. A value is a real number, NaN or an
    infinity; rounding and overflow are not represented. The only arithmetic of the script
    itself is the unnormalising of the joint angles, whose result goes to the forward
    kinematics. The loss and the means, whose values decide what the script saves, are
    computed by the libraries and belong to the environment. The product
    \<^verbatim>\<open>n * 0.7\<close> that sizes the training split is computed exactly as IEEE doubles
    compute it.
  \<^item> An exception is a value: a pure helper returns \<open>exn + 'a\<close> with \<open>Inl\<close> the exception
    the library call raises, and \<open>main\<close> returns an \<open>error\<close> that also says whether the
    script itself or a library call raised it, together with the files written so far.
  \<^item> The trained models, the random number generators and the dataset file are not part
    of the repository: they are the fields of the record \<open>env\<close>, and every theorem holds for
    every such environment unless it states a hypothesis about it.
  \<^item> The file system is the list of writes performed, the latest first; the content of a
    path is the latest write to it.
\<close>

subsection \<open>Exceptions\<close>

datatype exn = AssertionError | IndexError | ValueError | TypeError | RuntimeError | OSError

datatype error = Script exn | Library exn

subsection \<open>Floating-point values\<close>

datatype fl = NaN | NInf | Fin real | PInf

definition is_finite :: "fl \<Rightarrow> bool" where
  "is_finite v = (case v of Fin _ \<Rightarrow> True | _ \<Rightarrow> False)"

text \<open>The comparison \<^verbatim>\<open><\<close> of floats: False whenever an argument is NaN.\<close>

fun fl_less :: "fl \<Rightarrow> fl \<Rightarrow> bool" where
  "fl_less NaN _ = False"
| "fl_less _ NaN = False"
| "fl_less _ NInf = False"
| "fl_less NInf _ = True"
| "fl_less PInf _ = False"
| "fl_less (Fin x) (Fin y) = (x < y)"
| "fl_less (Fin x) PInf = True"

text \<open>Negation, sum and product with the special values of IEEE arithmetic, and exact on
  the reals.\<close>

fun fl_neg :: "fl \<Rightarrow> fl" where
  "fl_neg NaN = NaN"
| "fl_neg NInf = PInf"
| "fl_neg PInf = NInf"
| "fl_neg (Fin x) = Fin (- x)"

fun fl_add :: "fl \<Rightarrow> fl \<Rightarrow> fl" where
  "fl_add NaN _ = NaN"
| "fl_add _ NaN = NaN"
| "fl_add (Fin x) (Fin y) = Fin (x + y)"
| "fl_add PInf NInf = NaN"
| "fl_add NInf PInf = NaN"
| "fl_add PInf _ = PInf"
| "fl_add _ PInf = PInf"
| "fl_add NInf _ = NInf"
| "fl_add _ NInf = NInf"

fun fl_mul :: "fl \<Rightarrow> fl \<Rightarrow> fl" where
  "fl_mul NaN _ = NaN"
| "fl_mul _ NaN = NaN"
| "fl_mul (Fin x) (Fin y) = Fin (x * y)"
| "fl_mul (Fin x) PInf = (if x = 0 then NaN else if 0 < x then PInf else NInf)"
| "fl_mul (Fin x) NInf = (if x = 0 then NaN else if 0 < x then NInf else PInf)"
| "fl_mul PInf (Fin y) = (if y = 0 then NaN else if 0 < y then PInf else NInf)"
| "fl_mul NInf (Fin y) = (if y = 0 then NaN else if 0 < y then NInf else PInf)"
| "fl_mul PInf PInf = PInf"
| "fl_mul NInf NInf = PInf"
| "fl_mul PInf NInf = NInf"
| "fl_mul NInf PInf = NInf"

subsection \<open>Command-line arguments and the environment\<close>

text \<open>The flags \<^verbatim>\<open>parse_arguments(behavioural_vae=True, policy=True, gibson=True)\<close> defines
  and \<open>main\<close> reads.\<close>

record args =
  vae_name :: string
  latent_dim :: int
  num_joints :: int
  num_actions :: int
  model_index :: int
  policy_name :: string
  num_epoch :: int
  batch_size :: int
  lr :: real
  num_processes :: int
  g_name :: string
  g_latent :: int
  debug :: bool

type_synonym array2 = "fl list list"
type_synonym array3 = "fl list list list"
type_synonym sample = "fl list \<times> fl list"

text \<open>
  What the script imports and does not define. \<open>'m\<close> is the loaded trajectory VAE, \<open>'p\<close>
  the policy network together with its optimizer state, \<open>'l\<close> a loss tensor (its value and
  what \<^verbatim>\<open>backward\<close> needs).
  \<^item> \<open>np_load\<close>: the two arrays unpickled from the dataset file, or the exception raised.
  \<^item> \<open>random_integers low high size\<close>: \<^verbatim>\<open>np.random.random_integers\<close>, whose draws lie in
    the closed interval from \<open>low\<close> to \<open>high\<close>.
  \<^item> \<open>randperm k n\<close>: the \<open>k\<close>-th permutation of \<open>0..<n\<close> drawn by torch (draw 0 by
    \<^verbatim>\<open>random_split\<close>, draw \<open>e + 1\<close> by the shuffling train loader in epoch \<open>e\<close>).
  \<^item> \<open>policy_forward train_mode p x\<close>: the policy applied to a batch, in train or eval mode.
  \<^item> \<open>mse_loss input target\<close>: \<^verbatim>\<open>F.mse_loss\<close>, the mean-squared error as torch computes
    it (in single precision, after broadcasting the two shapes), or the exception for shapes
    that cannot be broadcast; \<open>item\<close> is \<^verbatim>\<open>loss.item()\<close>.
  \<^item> \<open>optimizer_step p loss\<close>: the policy after \<^verbatim>\<open>loss.backward()\<close>,
    \<^verbatim>\<open>optimizer.step()\<close> and \<^verbatim>\<open>optimizer.zero_grad()\<close>.
  \<^item> \<open>np_mean\<close>, \<open>np_log\<close>: \<^verbatim>\<open>np.mean\<close> of a list of floats (NaN, with a warning, for
    the empty list) and \<^verbatim>\<open>np.log\<close> of one float.
\<close>

record ('p, 'm, 'l) env =
  GIBSON_ROOT :: string
  BEHAVIOUR_ROOT :: string
  MIN_ANGLE :: real
  MAX_ANGLE :: real
  np_load :: "string \<Rightarrow> exn + (array3 \<times> array2)"
  random_integers :: "int \<Rightarrow> int \<Rightarrow> nat \<Rightarrow> int list"
  randperm :: "nat \<Rightarrow> nat \<Rightarrow> nat list"
  ROSTrajectoryVAE :: "string \<Rightarrow> int \<Rightarrow> int \<Rightarrow> int \<Rightarrow> int \<Rightarrow> string \<Rightarrow> exn + 'm"
  Predictor :: "int \<Rightarrow> int \<Rightarrow> exn + 'p"
  Adam :: "'p \<Rightarrow> real \<Rightarrow> exn + 'p"
  policy_forward :: "bool \<Rightarrow> 'p \<Rightarrow> array2 \<Rightarrow> exn + array2"
  traj_decoder :: "'m \<Rightarrow> array2 \<Rightarrow> exn + array2"
  to_trajectory :: "'m \<Rightarrow> array2 \<Rightarrow> exn + array3"
  end_effector_pose :: "array2 \<Rightarrow> exn + array2"
  mse_loss :: "array2 \<Rightarrow> array2 \<Rightarrow> exn + 'l"
  item :: "'l \<Rightarrow> fl"
  optimizer_step :: "'p \<Rightarrow> 'l \<Rightarrow> 'p"
  np_mean :: "fl list \<Rightarrow> fl"
  np_log :: "fl \<Rightarrow> fl"

subsection \<open>Paths\<close>

text \<open>\<^verbatim>\<open>os.path.join\<close> on POSIX, for two components and folded over more.\<close>

definition path_join :: "string \<Rightarrow> string \<Rightarrow> string" where
  "path_join a b =
     (if b \<noteq> [] \<and> hd b = CHR ''/'' then b
      else if a = [] \<or> last a = CHR ''/'' then a @ b
      else a @ ''/'' @ b)"

subsection \<open>numpy indexing\<close>

text \<open>\<^verbatim>\<open>a[:, 0, :]\<close>: the first slice along the middle axis. It raises IndexError when
  the middle axis is empty. (An array with no rows has no middle axis in this
  representation and is sliced to the empty array.)\<close>

definition first_slice :: "'a list list \<Rightarrow> exn + 'a list" where
  "first_slice a = (if list_all (\<lambda>r. r \<noteq> []) a then Inr (map hd a) else Inl IndexError)"

text \<open>\<^verbatim>\<open>a[indices]\<close> with an integer array: each index selects a row, a negative index
  counts from the end, and an index outside \<open>-n..<n\<close> raises IndexError.\<close>

fun index_rows :: "'a list \<Rightarrow> int list \<Rightarrow> exn + 'a list" where
  "index_rows a [] = Inr []"
| "index_rows a (i # is) =
     (let n = int (length a); j = (if i < 0 then n + i else i)
      in if 0 \<le> j \<and> j < n
         then (case index_rows a is of Inl e \<Rightarrow> Inl e | Inr rows \<Rightarrow> Inr (a ! nat j # rows))
         else Inl IndexError)"

text \<open>\<^verbatim>\<open>data.TensorDataset(latents, target_coord)\<close>: torch asserts that both tensors have
  the same number of rows; item \<open>i\<close> is the pair of the \<open>i\<close>-th rows.\<close>

definition TensorDataset :: "array2 \<Rightarrow> array2 \<Rightarrow> exn + sample list" where
  "TensorDataset latents target_coord =
     (if length latents = length target_coord then Inr (zip latents target_coord)
      else Inl AssertionError)"

subsection \<open>\<^verbatim>\<open>load_dataset\<close>\<close>

definition data_path :: "('p, 'm, 'l) env \<Rightarrow> string \<Rightarrow> string" where
  "data_path env perception_name =
     path_join (path_join (path_join (GIBSON_ROOT env) ''log'') perception_name)
       ''mujoco_latents/latents.pkl''"

definition load_dataset :: "('p, 'm, 'l) env \<Rightarrow> string \<Rightarrow> bool \<Rightarrow> exn + sample list" where
  "load_dataset env perception_name dbg =
     (case np_load env (data_path env perception_name) of
        Inl e \<Rightarrow> Inl e
      | Inr (latents, target_coord) \<Rightarrow>
     (case first_slice latents of
        Inl e \<Rightarrow> Inl e
      | Inr latents \<Rightarrow>
     (if dbg then
        (let indices = random_integers env 0 (int (length latents)) 10 in
         case index_rows latents indices of
           Inl e \<Rightarrow> Inl e
         | Inr latents \<Rightarrow>
        (case index_rows target_coord indices of
           Inl e \<Rightarrow> Inl e
         | Inr target_coord \<Rightarrow> TensorDataset latents target_coord))
      else TensorDataset latents target_coord)))"

subsection \<open>The size of the training split\<close>

text \<open>
  \<^verbatim>\<open>train_size = int(dataset.__len__() * 0.7)\<close> multiplies an integer by the double
  nearest to 0.7, which is \<open>3152519739159347 / 2^52\<close>, rounds the product to a double
  (53 significant bits, ties to even) and truncates it. The functions below compute
  this on the numerator over \<open>2^52\<close>. (Python converts the integer to a double first,
  which is exact for every length below \<open>2^53\<close>.)
\<close>

function bitlen :: "int \<Rightarrow> nat" where
  "bitlen n = (if n \<le> 0 then 0 else Suc (bitlen (n div 2)))"
  by pat_completeness auto
termination
  by (relation "measure nat") auto

declare bitlen.simps [simp del]

definition round53 :: "int \<Rightarrow> int" where
  "round53 P =
     (if bitlen P \<le> 53 then P
      else (let s = bitlen P - 53; m = P div 2 ^ s; r = P mod 2 ^ s; h = 2 ^ (s - 1)
            in (if h < r \<or> (r = h \<and> odd m) then m + 1 else m) * 2 ^ s))"

definition train_size_of :: "nat \<Rightarrow> nat" where
  "train_size_of n = nat (round53 (int n * 3152519739159347) div 2 ^ 52)"

subsection \<open>torch data utilities\<close>

text \<open>\<^verbatim>\<open>data.random_split(dataset, lengths)\<close>: the lengths must sum to the size of the
  dataset; the subsets are consecutive slices of one random permutation of the indices. A
  subset is the list of its indices into the dataset.\<close>

definition random_split :: "('p, 'm, 'l) env \<Rightarrow> nat \<Rightarrow> nat \<times> nat \<Rightarrow> exn + (nat list \<times> nat list)" where
  "random_split env n lengths =
     (case lengths of (a, b) \<Rightarrow>
        if a + b \<noteq> n then Inl ValueError
        else (let indices = randperm env 0 (a + b)
              in Inr (take a indices, take b (drop a indices))))"

record loader =
  subset :: "nat list"
  batch :: nat
  shuffled :: bool

text \<open>\<^verbatim>\<open>data.DataLoader(subset, batch_size, shuffle, num_workers)\<close>: the constructor
  rejects a negative number of workers, an empty subset when shuffling (the random
  sampler needs a positive number of samples) and a batch size that is not positive, each
  with ValueError. (The worker processes only fetch items; they do not change what is
  yielded.)\<close>

definition DataLoader :: "nat list \<Rightarrow> int \<Rightarrow> bool \<Rightarrow> int \<Rightarrow> exn + loader" where
  "DataLoader s bs shuffle num_workers =
     (if num_workers < 0 \<or> (shuffle \<and> s = []) \<or> bs \<le> 0 then Inl ValueError
      else Inr \<lparr>subset = s, batch = nat bs, shuffled = shuffle\<rparr>)"

text \<open>Reading the items at a list of indices; an index out of range raises IndexError.\<close>

definition items_at :: "'a list \<Rightarrow> nat list \<Rightarrow> exn + 'a list" where
  "items_at xs idx =
     (if list_all (\<lambda>i. i < length xs) idx then Inr (map (\<lambda>i. xs ! i) idx) else Inl IndexError)"

fun chunks :: "nat \<Rightarrow> 'a list \<Rightarrow> 'a list list" where
  "chunks k [] = []"
| "chunks k (x # xs) =
     (if k = 0 then [] else take k (x # xs) # chunks k (drop k (x # xs)))"

text \<open>One pass over a loader: the items in the order of the sampler (draw \<open>k\<close> of the
  permutation generator when shuffling), cut into batches, the last one possibly shorter,
  each collated into the pair of its latent rows and its target rows.\<close>

definition iter_loader ::
  "('p, 'm, 'l) env \<Rightarrow> sample list \<Rightarrow> loader \<Rightarrow> nat \<Rightarrow> exn + (array2 \<times> array2) list" where
  "iter_loader env dataset l k =
     (let order = (if shuffled l then randperm env k (length (subset l))
                   else [0..<length (subset l)])
      in case items_at (subset l) order of
           Inl e \<Rightarrow> Inl e
         | Inr idx \<Rightarrow>
        (case items_at dataset idx of
           Inl e \<Rightarrow> Inl e
         | Inr items \<Rightarrow> Inr (map (\<lambda>b. (map fst b, map snd b)) (chunks (batch l) items))))"

subsection \<open>numpy and torch arithmetic\<close>

text \<open>\<^verbatim>\<open>trajectories[:, :, -1]\<close>: the last entry along the last axis, for every sample and
  joint; IndexError when that axis is empty.\<close>

definition last_pose :: "array3 \<Rightarrow> exn + array2" where
  "last_pose t =
     (if list_all (list_all (\<lambda>r. r \<noteq> [])) t then Inr (map (map last) t) else Inl IndexError)"

text \<open>\<^verbatim>\<open>(MAX_ANGLE - MIN_ANGLE) * end_joint_pose + MIN_ANGLE\<close>, entry by entry.\<close>

definition unnormalize :: "('p, 'm, 'l) env \<Rightarrow> array2 \<Rightarrow> array2" where
  "unnormalize env x =
     map (map (\<lambda>v. fl_add (fl_mul (Fin (MAX_ANGLE env - MIN_ANGLE env)) v) (Fin (MIN_ANGLE env)))) x"

text \<open>\<^verbatim>\<open>np.concatenate\<close> of a list of arrays along the first axis; ValueError when the
  list is empty.\<close>

definition np_concatenate :: "'a list list \<Rightarrow> exn + 'a list" where
  "np_concatenate arrays = (if arrays = [] then Inl ValueError else Inr (concat arrays))"

text \<open>\<^verbatim>\<open>a[:, j]\<close> and \<^verbatim>\<open>a.shape[1]\<close> of a two-dimensional array (with at least one row
  wherever the script reads its width).\<close>

definition column :: "array2 \<Rightarrow> nat \<Rightarrow> exn + fl list" where
  "column a j =
     (if list_all (\<lambda>r. j < length r) a then Inr (map (\<lambda>r. r ! j) a) else Inl IndexError)"

definition ncols :: "array2 \<Rightarrow> nat" where
  "ncols a = (case a of [] \<Rightarrow> 0 | r # _ \<Rightarrow> length r)"

subsection \<open>Files, and the helpers of \<^verbatim>\<open>utils.py\<close>\<close>

datatype 'p content =
    Arguments args
  | StateDict 'p
  | Scatter array2 array2
  | LatentHist array2
  | LossCurve string "fl list" "fl list"

type_synonym 'p files = "(string \<times> 'p content) list"

text \<open>\<^verbatim>\<open>save_arguments\<close> creates the directory when it is missing and writes one line per
  argument; the content is kept as the arguments themselves.\<close>

definition save_arguments :: "args \<Rightarrow> string \<Rightarrow> 'p files \<Rightarrow> 'p files" where
  "save_arguments a save_path fs = (path_join save_path ''arguments.txt'', Arguments a) # fs"

text \<open>\<^verbatim>\<open>plot_loss\<close>: both curves are drawn against \<open>1..len(train)\<close>; matplotlib raises
  ValueError when \<open>val\<close> has another length.\<close>

definition plot_loss ::
  "fl list \<Rightarrow> fl list \<Rightarrow> string \<Rightarrow> string \<Rightarrow> 'p files \<Rightarrow> exn + 'p files" where
  "plot_loss train val title save_to fs =
     (if length val = length train then Inr ((save_to, LossCurve title train val) # fs)
      else Inl ValueError)"

definition plot_scatter :: "array2 \<Rightarrow> array2 \<Rightarrow> string \<Rightarrow> 'p files \<Rightarrow> exn + 'p files" where
  "plot_scatter constructed targets save_to fs =
     (case column targets 0 of Inl e \<Rightarrow> Inl e | Inr tx \<Rightarrow>
     (case column targets 1 of Inl e \<Rightarrow> Inl e | Inr ty \<Rightarrow>
     (case column constructed 0 of Inl e \<Rightarrow> Inl e | Inr cx \<Rightarrow>
     (case column constructed 1 of Inl e \<Rightarrow> Inl e | Inr cy \<Rightarrow>
        Inr ((save_to, Scatter constructed targets) # fs)))))"

text \<open>\<^verbatim>\<open>ax.hist(batch, bins=100)\<close>: the range of the bins is taken from the values that
  are not NaN; numpy raises ValueError when that range is not finite, which is when some
  value is infinite or when there are values and every one is NaN.\<close>

definition hist :: "fl list \<Rightarrow> exn + unit" where
  "hist xs =
     (if (xs \<noteq> [] \<and> list_all (\<lambda>v. v = NaN) xs) \<or> list_ex (\<lambda>v. v = PInf \<or> v = NInf) xs
      then Inl ValueError else Inr ())"

text \<open>The loop of \<^verbatim>\<open>plot_latent_distributions\<close> over the columns.\<close>

fun hist_columns :: "array2 \<Rightarrow> nat list \<Rightarrow> exn + unit" where
  "hist_columns latents [] = Inr ()"
| "hist_columns latents (i # rest) =
     (case column latents i of
        Inl e \<Rightarrow> Inl e
      | Inr xs \<Rightarrow>
     (case hist xs of
        Inl e \<Rightarrow> Inl e
      | Inr _ \<Rightarrow> hist_columns latents rest))"

text \<open>\<^verbatim>\<open>plot_latent_distributions\<close>: \<^verbatim>\<open>plt.subplots(k, 1)\<close> raises ValueError for
  \<open>k = 0\<close> and returns a single axes object, which \<^verbatim>\<open>axes[i]\<close> cannot index
  (TypeError), for \<open>k = 1\<close>; otherwise one histogram per column is drawn, and the figure is
  saved after the last.\<close>

definition plot_latent_distributions :: "array2 \<Rightarrow> string \<Rightarrow> 'p files \<Rightarrow> exn + 'p files" where
  "plot_latent_distributions latents save_to fs =
     (if ncols latents = 0 then Inl ValueError
      else if ncols latents = 1 then Inl TypeError
      else (case hist_columns latents [0..<ncols latents] of
              Inl e \<Rightarrow> Inl e
            | Inr _ \<Rightarrow> Inr ((save_to, LatentHist latents) # fs)))"

text \<open>\<^verbatim>\<open>load_parameters\<close>: \<^verbatim>\<open>torch.load\<close> and \<^verbatim>\<open>load_state_dict\<close> are the library's and
  are taken as arguments; \<^verbatim>\<open>model.eval()\<close> only sets the mode.\<close>

definition load_parameters ::
  "(string \<Rightarrow> exn + 'sd) \<Rightarrow> ('mod \<Rightarrow> 'sd \<Rightarrow> exn + 'mod) \<Rightarrow> 'mod \<Rightarrow> string \<Rightarrow> string \<Rightarrow> exn + 'mod" where
  "load_parameters torch_load load_state_dict model load_path model_name =
     (let model_path = path_join load_path (model_name @ ''.pth.tar'')
      in case torch_load model_path of
           Inl e \<Rightarrow> Inl e
         | Inr sd \<Rightarrow> load_state_dict model sd)"

subsection \<open>\<^verbatim>\<open>main\<close>: one batch\<close>

text \<open>Lines 98 to 116 and again 145 to 162: from a batch of perception latents to the
  loss. The result is the loss tensor, the end-effector poses and the policy's latents.\<close>

definition forward ::
  "('p, 'm, 'l) env \<Rightarrow> 'm \<Rightarrow> bool \<Rightarrow> 'p \<Rightarrow> array2 \<Rightarrow> array2 \<Rightarrow> exn + ('l \<times> array2 \<times> array2)" where
  "forward env action_vae train_mode pol latent_1 target_pose =
     (case policy_forward env train_mode pol latent_1 of
        Inl e \<Rightarrow> Inl e
      | Inr latent_2 \<Rightarrow>
     (case traj_decoder env action_vae latent_2 of
        Inl e \<Rightarrow> Inl e
      | Inr trajectories \<Rightarrow>
     (case to_trajectory env action_vae trajectories of
        Inl e \<Rightarrow> Inl e
      | Inr trajectories \<Rightarrow>
     (case last_pose trajectories of
        Inl e \<Rightarrow> Inl e
      | Inr end_joint_pose \<Rightarrow>
     (case end_effector_pose env (unnormalize env end_joint_pose) of
        Inl e \<Rightarrow> Inl e
      | Inr end_pose \<Rightarrow>
     (case mse_loss env end_pose target_pose of
        Inl e \<Rightarrow> Inl e
      | Inr loss \<Rightarrow> Inr (loss, end_pose, latent_2)))))))"

text \<open>The training loop over the batches of one epoch (lines 92 to 125). The accumulator
  is the policy and the lists \<open>train_losses\<close>, \<open>end_poses\<close>, \<open>target_poses\<close>, \<open>latents\<close>.\<close>

fun train_batches ::
  "('p, 'm, 'l) env \<Rightarrow> 'm \<Rightarrow> (array2 \<times> array2) list \<Rightarrow>
   'p \<times> fl list \<times> array2 list \<times> array2 list \<times> array2 list \<Rightarrow>
   exn + ('p \<times> fl list \<times> array2 list \<times> array2 list \<times> array2 list)" where
  "train_batches env action_vae [] acc = Inr acc"
| "train_batches env action_vae ((latent_1, target_pose) # rest)
     (pol, train_losses, end_poses, target_poses, latents) =
     (case forward env action_vae True pol latent_1 target_pose of
        Inl e \<Rightarrow> Inl e
      | Inr (loss, end_pose, latent_2) \<Rightarrow>
          train_batches env action_vae rest
            (optimizer_step env pol loss,
             train_losses @ [item env loss],
             end_poses @ [end_pose],
             target_poses @ [target_pose],
             latents @ [latent_2]))"

text \<open>The validation loop (lines 141 to 169): no optimizer step, and \<open>end_pose\<close> is
  appended at line 164 and again at line 167.\<close>

fun val_batches ::
  "('p, 'm, 'l) env \<Rightarrow> 'm \<Rightarrow> 'p \<Rightarrow> (array2 \<times> array2) list \<Rightarrow>
   fl list \<times> array2 list \<times> array2 list \<times> array2 list \<Rightarrow>
   exn + (fl list \<times> array2 list \<times> array2 list \<times> array2 list)" where
  "val_batches env action_vae pol [] acc = Inr acc"
| "val_batches env action_vae pol ((latent_1, target_pose) # rest)
     (val_losses, end_poses, target_poses, latents) =
     (case forward env action_vae False pol latent_1 target_pose of
        Inl e \<Rightarrow> Inl e
      | Inr (loss, end_pose, latent_2) \<Rightarrow>
          val_batches env action_vae pol rest
            (val_losses @ [item env loss],
             (end_poses @ [end_pose]) @ [end_pose],
             target_poses @ [target_pose],
             latents @ [latent_2]))"

subsection \<open>\<^verbatim>\<open>main\<close>: one epoch\<close>

record 'p state =
  policy :: 'p
  best_val :: fl
  avg_train_losses :: "fl list"
  avg_val_losses :: "fl list"
  files :: "'p files"

text \<open>Lines 85 to 132. With no batch, \<^verbatim>\<open>np.mean\<close> of the empty list only warns and
  \<^verbatim>\<open>np.concatenate\<close> raises.\<close>

definition training ::
  "('p, 'm, 'l) env \<Rightarrow> 'm \<Rightarrow> sample list \<Rightarrow> loader \<Rightarrow> nat \<Rightarrow> 'p \<Rightarrow>
   exn + ('p \<times> fl \<times> array2 \<times> array2 \<times> array2 list)" where
  "training env action_vae dataset train_loader e pol =
     (case iter_loader env dataset train_loader (Suc e) of
        Inl x \<Rightarrow> Inl x
      | Inr batches \<Rightarrow>
     (case train_batches env action_vae batches (pol, [], [], [], []) of
        Inl x \<Rightarrow> Inl x
      | Inr (pol', train_losses, end_poses, target_poses, latents) \<Rightarrow>
     (let avg_loss = np_mean env train_losses
      in case np_concatenate end_poses of
           Inl x \<Rightarrow> Inl x
         | Inr train_poses \<Rightarrow>
        (case np_concatenate target_poses of
           Inl x \<Rightarrow> Inl x
         | Inr train_targets \<Rightarrow> Inr (pol', avg_loss, train_poses, train_targets, latents)))))"

text \<open>Lines 136 to 177; \<open>latents\<close> still holds the training batches' latents.\<close>

definition validation ::
  "('p, 'm, 'l) env \<Rightarrow> 'm \<Rightarrow> sample list \<Rightarrow> loader \<Rightarrow> 'p \<Rightarrow> array2 list \<Rightarrow>
   exn + (fl \<times> array2 \<times> array2 \<times> array2)" where
  "validation env action_vae dataset test_loader pol latents =
     (case iter_loader env dataset test_loader 0 of
        Inl x \<Rightarrow> Inl x
      | Inr batches \<Rightarrow>
     (case val_batches env action_vae pol batches ([], [], [], latents) of
        Inl x \<Rightarrow> Inl x
      | Inr (val_losses, end_poses, target_poses, latents) \<Rightarrow>
     (let avg_loss = np_mean env val_losses
      in case np_concatenate end_poses of
           Inl x \<Rightarrow> Inl x
         | Inr val_poses \<Rightarrow>
        (case np_concatenate target_poses of
           Inl x \<Rightarrow> Inl x
         | Inr val_targets \<Rightarrow>
        (case np_concatenate latents of
           Inl x \<Rightarrow> Inl x
         | Inr latents \<Rightarrow> Inr (avg_loss, val_poses, val_targets, latents))))))"

text \<open>Lines 179 to 181: \<^verbatim>\<open>if avg_loss < best_val\<close>.\<close>

definition checkpoint :: "string \<Rightarrow> fl \<Rightarrow> 'p state \<Rightarrow> 'p state" where
  "checkpoint save_path avg_loss st =
     (if fl_less avg_loss (best_val st)
      then st\<lparr>best_val := avg_loss,
              files := (path_join save_path ''model.pth.tar'', StateDict (policy st)) # files st\<rparr>
      else st)"

text \<open>Lines 183 to 191. A plot that raises leaves the files written before it.\<close>

definition plots ::
  "('p, 'm, 'l) env \<Rightarrow> string \<Rightarrow> array2 \<Rightarrow> array2 \<Rightarrow> array2 \<Rightarrow> array2 \<Rightarrow> array2 \<Rightarrow> 'p state \<Rightarrow>
   (error \<times> 'p files) + 'p state" where
  "plots env save_path train_poses train_targets val_poses val_targets latents st =
     (case plot_scatter train_poses train_targets
             (path_join save_path ''train_scatter.png'') (files st) of
        Inl x \<Rightarrow> Inl (Library x, files st)
      | Inr fs1 \<Rightarrow>
     (case plot_scatter val_poses val_targets (path_join save_path ''val_scatter.png'') fs1 of
        Inl x \<Rightarrow> Inl (Library x, fs1)
      | Inr fs2 \<Rightarrow>
     (case plot_scatter (train_poses @ val_poses) (train_targets @ val_targets)
             (path_join save_path ''full_scatter.png'') fs2 of
        Inl x \<Rightarrow> Inl (Library x, fs2)
      | Inr fs3 \<Rightarrow>
     (case plot_latent_distributions latents
             (path_join save_path ''latents_distribution.png'') fs3 of
        Inl x \<Rightarrow> Inl (Library x, fs3)
      | Inr fs4 \<Rightarrow>
     (case plot_loss (avg_train_losses st) (avg_val_losses st) ''Avg mse''
             (path_join save_path ''avg_mse.png'') fs4 of
        Inl x \<Rightarrow> Inl (Library x, fs4)
      | Inr fs5 \<Rightarrow>
     (case plot_loss (map (np_log env) (avg_train_losses st)) (map (np_log env) (avg_val_losses st))
             ''Avg mse in log scale'' (path_join save_path ''avg_log_mse.png'') fs5 of
        Inl x \<Rightarrow> Inl (Library x, fs5)
      | Inr fs6 \<Rightarrow> Inr (st\<lparr>files := fs6\<rparr>)))))))"

text \<open>The body of the loop over the epochs, lines 83 to 191.\<close>

definition epoch ::
  "('p, 'm, 'l) env \<Rightarrow> 'm \<Rightarrow> sample list \<Rightarrow> loader \<Rightarrow> loader \<Rightarrow> string \<Rightarrow> nat \<Rightarrow> 'p state \<Rightarrow>
   (error \<times> 'p files) + 'p state" where
  "epoch env action_vae dataset train_loader test_loader save_path e st =
     (case training env action_vae dataset train_loader e (policy st) of
        Inl x \<Rightarrow> Inl (Library x, files st)
      | Inr (pol, avg_train, train_poses, train_targets, latents) \<Rightarrow>
     (case validation env action_vae dataset test_loader pol latents of
        Inl x \<Rightarrow> Inl (Library x, files st)
      | Inr (avg_val, val_poses, val_targets, latents) \<Rightarrow>
          plots env save_path train_poses train_targets val_poses val_targets latents
            (checkpoint save_path avg_val
               (st\<lparr>policy := pol,
                    avg_train_losses := avg_train_losses st @ [avg_train],
                    avg_val_losses := avg_val_losses st @ [avg_val]\<rparr>))))"

fun epochs ::
  "('p, 'm, 'l) env \<Rightarrow> 'm \<Rightarrow> sample list \<Rightarrow> loader \<Rightarrow> loader \<Rightarrow> string \<Rightarrow> nat list \<Rightarrow> 'p state \<Rightarrow>
   (error \<times> 'p files) + 'p state" where
  "epochs env action_vae dataset train_loader test_loader save_path [] st = Inr st"
| "epochs env action_vae dataset train_loader test_loader save_path (e # es) st =
     (case epoch env action_vae dataset train_loader test_loader save_path e st of
        Inl x \<Rightarrow> Inl x
      | Inr st' \<Rightarrow> epochs env action_vae dataset train_loader test_loader save_path es st')"

subsection \<open>\<^verbatim>\<open>main\<close>\<close>

definition save_path_of :: "args \<Rightarrow> string" where
  "save_path_of a = path_join ''../policy_log'' (policy_name a)"

definition initial_state :: "'p \<Rightarrow> 'p files \<Rightarrow> 'p state" where
  "initial_state pol fs =
     \<lparr>policy = pol, best_val = PInf, avg_train_losses = [], avg_val_losses = [], files = fs\<rparr>"

text \<open>Lines 41 to 81; \<open>best_val\<close> starts as \<^verbatim>\<open>np.inf\<close>. \<open>fs0\<close> is the file system the
  run starts with. The subtraction in
  \<open>test_size\<close> never truncates, since the training size is at most the size of the
  dataset.\<close>

definition main :: "('p, 'm, 'l) env \<Rightarrow> args \<Rightarrow> 'p files \<Rightarrow> (error \<times> 'p files) + 'p state" where
  "main env a fs0 =
     (let save_path = save_path_of a;
          fs = save_arguments a save_path fs0
      in if \<not> 0 < model_index a then Inl (Script AssertionError, fs)
         else
     (case ROSTrajectoryVAE env (vae_name a) (latent_dim a) (num_actions a) (model_index a)
             (num_joints a) (BEHAVIOUR_ROOT env) of
        Inl x \<Rightarrow> Inl (Library x, fs)
      | Inr action_vae \<Rightarrow>
     (case Predictor env (g_latent a) (latent_dim a) of
        Inl x \<Rightarrow> Inl (Library x, fs)
      | Inr pol \<Rightarrow>
     (case Adam env pol (lr a) of
        Inl x \<Rightarrow> Inl (Library x, fs)
      | Inr pol \<Rightarrow>
     (case load_dataset env (g_name a) (debug a) of
        Inl x \<Rightarrow> Inl (Library x, fs)
      | Inr dataset \<Rightarrow>
     (let train_size = train_size_of (length dataset);
          test_size = length dataset - train_size
      in case random_split env (length dataset) (train_size, test_size) of
           Inl x \<Rightarrow> Inl (Library x, fs)
         | Inr (trainset, testset) \<Rightarrow>
        (case DataLoader trainset (batch_size a) True (num_processes a) of
           Inl x \<Rightarrow> Inl (Library x, fs)
         | Inr train_loader \<Rightarrow>
        (case DataLoader testset (int (length testset)) False 0 of
           Inl x \<Rightarrow> Inl (Library x, fs)
         | Inr test_loader \<Rightarrow>
             epochs env action_vae dataset train_loader test_loader save_path
               [0..<nat (num_epoch a)] (initial_state pol fs)))))))))"

subsection \<open>The loss in the words of the specification\<close>

text \<open>
  The specification describes the loss as the mean-squared error between the 3D
  end-effector position decoded from the policy output (trajectory decoding, the last joint
  pose, unnormalising by \<open>(MAX_ANGLE - MIN_ANGLE) * x + MIN_ANGLE\<close>, forward kinematics)
  and the target coordinate of the batch. The definitions of this subsection say that,
  independently of \<open>forward\<close>: the decoding as a chain of steps, the loss of a batch as
  \<^verbatim>\<open>F.mse_loss\<close> of the decoded position and the target, and the mean-squared error entry
  by entry.
\<close>

definition and_then :: "exn + 'a \<Rightarrow> ('a \<Rightarrow> exn + 'b) \<Rightarrow> exn + 'b" where
  "and_then r f = (case r of Inl e \<Rightarrow> Inl e | Inr x \<Rightarrow> f x)"

text \<open>The last joint pose: for every sample and joint, the angle at the last action of the
  trajectory.\<close>

definition last_joint_pose :: "array3 \<Rightarrow> exn + array2" where
  "last_joint_pose trajectories =
     (if list_ex (list_ex (\<lambda>actions. length actions = 0)) trajectories then Inl IndexError
      else Inr (map (map (\<lambda>actions. actions ! (length actions - 1))) trajectories))"

definition decoded_end_pose ::
  "('p, 'm, 'l) env \<Rightarrow> 'm \<Rightarrow> bool \<Rightarrow> 'p \<Rightarrow> array2 \<Rightarrow> exn + array2" where
  "decoded_end_pose env action_vae train_mode pol latent_1 =
     and_then (policy_forward env train_mode pol latent_1) (\<lambda>latent_2.
     and_then (traj_decoder env action_vae latent_2) (\<lambda>decoded.
     and_then (to_trajectory env action_vae decoded) (\<lambda>trajectories.
     and_then (last_joint_pose trajectories) (\<lambda>joints.
       end_effector_pose env
         (map (map (\<lambda>x. fl_add (fl_mul (Fin (MAX_ANGLE env - MIN_ANGLE env)) x)
                          (Fin (MIN_ANGLE env)))) joints)))))"



text \<open>The mean of the squared differences of all entries, in exact arithmetic; the mean of
  no entry is NaN.\<close>

definition squared_error :: "fl \<Rightarrow> fl \<Rightarrow> fl" where
  "squared_error x y = fl_mul (fl_add x (fl_neg y)) (fl_add x (fl_neg y))"

definition fl_mean :: "fl list \<Rightarrow> fl" where
  "fl_mean xs =
     (if xs = [] then NaN else fl_mul (foldr fl_add xs (Fin 0)) (Fin (1 / real (length xs))))"

definition mean_squared_error :: "array2 \<Rightarrow> array2 \<Rightarrow> fl" where
  "mean_squared_error pose target =
     fl_mean (concat (map (\<lambda>i. map (\<lambda>c. squared_error (pose ! i ! c) (target ! i ! c))
                                  [0..<length (pose ! i)])
                          [0..<length pose]))"


subsection \<open>Well-behaved libraries\<close>

text \<open>\<^verbatim>\<open>torch.randperm(n)\<close> returns a permutation of \<open>0..<n\<close>.\<close>

definition is_permutation :: "nat list \<Rightarrow> nat \<Rightarrow> bool" where
  "is_permutation xs n = (distinct xs \<and> set xs = {..<n})"

text \<open>The models return one row per row they are given.\<close>

definition rows_ok :: "('p, 'm, 'l) env \<Rightarrow> 'm \<Rightarrow> bool" where
  "rows_ok env action_vae =
     ((\<forall>train_mode pol x y. policy_forward env train_mode pol x = Inr y \<longrightarrow> length y = length x)
      \<and> (\<forall>x d y. traj_decoder env action_vae x = Inr d \<longrightarrow> to_trajectory env action_vae d = Inr y
           \<longrightarrow> length y = length x)
      \<and> (\<forall>x y. end_effector_pose env x = Inr y \<longrightarrow> length y = length x))"

text \<open>Rows of \<open>d\<close> finite entries.\<close>

definition finite_rows :: "int \<Rightarrow> array2 \<Rightarrow> bool" where
  "finite_rows d x = list_all (\<lambda>r. int (length r) = d \<and> list_all is_finite r) x"

text \<open>The models accept batches of the configured sizes and map them to as many rows:
  the policy takes finite latents of \<^verbatim>\<open>--g-latent\<close> entries to finite latents of
  \<^verbatim>\<open>--latent-dim\<close> entries; decoding and reshaping these gives, per sample, one trajectory
  per joint with at least one action; the forward kinematics takes one angle per joint to
  a 3D position; and \<^verbatim>\<open>F.mse_loss\<close> accepts two arrays of as many 3D rows.\<close>

definition models_ok :: "('p, 'm, 'l) env \<Rightarrow> 'm \<Rightarrow> args \<Rightarrow> bool" where
  "models_ok env action_vae a =
     ((\<forall>train_mode pol x. finite_rows (g_latent a) x \<longrightarrow>
         (\<exists>y. policy_forward env train_mode pol x = Inr y \<and> length y = length x
            \<and> finite_rows (latent_dim a) y))
      \<and> (\<forall>x. list_all (\<lambda>r. int (length r) = latent_dim a) x \<longrightarrow>
         (\<exists>d y. traj_decoder env action_vae x = Inr d \<and> to_trajectory env action_vae d = Inr y
            \<and> length y = length x
            \<and> list_all (\<lambda>t. int (length t) = num_joints a \<and> list_all (\<lambda>r. r \<noteq> []) t) y))
      \<and> (\<forall>x. list_all (\<lambda>r. int (length r) = num_joints a) x \<longrightarrow>
         (\<exists>y. end_effector_pose env x = Inr y \<and> length y = length x
            \<and> list_all (\<lambda>r. length r = 3) y))
      \<and> (\<forall>x y. length x = length y \<longrightarrow> list_all (\<lambda>r. length r = 3) x
           \<longrightarrow> list_all (\<lambda>r. length r = 3) y \<longrightarrow> (\<exists>loss. mse_loss env x y = Inr loss)))"

text \<open>A batch as the loaders of \<open>main\<close> yield it for a dataset with finite latents of \<open>d\<close>
  entries and 3D targets: at least one sample, one target row per latent row.\<close>

definition good_batch :: "int \<Rightarrow> array2 \<times> array2 \<Rightarrow> bool" where
  "good_batch d b =
     (fst b \<noteq> [] \<and> finite_rows d (fst b)
      \<and> length (snd b) = length (fst b) \<and> list_all (\<lambda>r. length r = 3) (snd b))"

text \<open>Every array of a list has a row, and rows of at least \<open>c\<close> entries.\<close>

definition wide_rows :: "nat \<Rightarrow> array2 list \<Rightarrow> bool" where
  "wide_rows c arrays = list_all (\<lambda>a. a \<noteq> [] \<and> list_all (\<lambda>r. c \<le> length r) a) arrays"

text \<open>Every array of a list has a row, and rows of \<open>d\<close> finite entries.\<close>

definition finite_arrays :: "int \<Rightarrow> array2 list \<Rightarrow> bool" where
  "finite_arrays d arrays = list_all (\<lambda>a. a \<noteq> [] \<and> finite_rows d a) arrays"

subsection \<open>Fixtures\<close>

text \<open>A stand-in for \<^verbatim>\<open>F.mse_loss\<close> in exact arithmetic. An axis of one entry is
  broadcast against the other array's axis; other axes of different lengths are rejected.\<close>

definition broadcast :: "'a list \<Rightarrow> 'b list \<Rightarrow> ('a \<times> 'b) list option" where
  "broadcast xs ys =
     (if length xs = length ys then Some (zip xs ys)
      else if length xs = 1 then Some (map (\<lambda>y. (hd xs, y)) ys)
      else if length ys = 1 then Some (map (\<lambda>x. (x, hd ys)) xs)
      else None)"

definition torch_mse_loss :: "array2 \<Rightarrow> array2 \<Rightarrow> exn + fl" where
  "torch_mse_loss input target =
     (case broadcast input target of
        None \<Rightarrow> Inl RuntimeError
      | Some rows \<Rightarrow>
          (let cells = map (\<lambda>(r, s). broadcast r s) rows
           in if list_all (\<lambda>c. c \<noteq> None) cells
              then Inr (fl_mean (map (\<lambda>(x, y). squared_error x y) (concat (map the cells))))
              else Inl RuntimeError))"

text \<open>A small environment for concrete runs: the dataset file holds the given arrays, the
  random index draw is the given list, permutations are the identity, and the policy is the
  number of optimizer steps taken. The policy maps every sample to the latent \<open>(0, steps)\<close>,
  the decoder is the identity, a trajectory is the latent after a leading 0 for a single
  joint, and the forward kinematics puts the joint angle on the first axis. A loss tensor
  is its value, and the means are exact.\<close>

definition fixture_env :: "array3 \<Rightarrow> array2 \<Rightarrow> int list \<Rightarrow> (nat, unit, fl) env" where
  "fixture_env lat tgt draws =
     \<lparr>GIBSON_ROOT = ''/gibson'', BEHAVIOUR_ROOT = ''/behaviour'',
      MIN_ANGLE = - 3, MAX_ANGLE = 3,
      np_load = (\<lambda>_. Inr (lat, tgt)),
      random_integers = (\<lambda>low high size. draws),
      randperm = (\<lambda>k n. [0..<n]),
      ROSTrajectoryVAE = (\<lambda>_ _ _ _ _ _. Inr ()),
      Predictor = (\<lambda>_ _. Inr 0),
      Adam = (\<lambda>pol _. Inr pol),
      policy_forward = (\<lambda>_ pol x. Inr (map (\<lambda>_. [Fin 0, Fin (real pol)]) x)),
      traj_decoder = (\<lambda>_ x. Inr x),
      to_trajectory = (\<lambda>_ x. Inr (map (\<lambda>r. [Fin 0 # r]) x)),
      end_effector_pose = (\<lambda>x. Inr (map (\<lambda>r. [hd r, Fin 0, Fin 0]) x)),
      mse_loss = torch_mse_loss,
      item = (\<lambda>loss. loss),
      optimizer_step = (\<lambda>pol _. Suc pol),
      np_mean = fl_mean,
      np_log = (\<lambda>_. Fin 0)\<rparr>"

text \<open>The defaults of \<^verbatim>\<open>parse_arguments\<close>.\<close>

definition default_args :: args where
  "default_args =
     \<lparr>vae_name = ''model_v1'', latent_dim = 5, num_joints = 7, num_actions = 24,
      model_index = - 1, policy_name = ''model_v1'', num_epoch = 1000, batch_size = 124,
      lr = 1 / 1000, num_processes = 16, g_name = ''rgb_model_v1'', g_latent = 10,
      debug = False\<rparr>"

text \<open>A dataset file of two samples; the split trains on the first and validates on the
  second. \<open>run_args n\<close> are the defaults with a valid model index, the sizes of the
  fixture's models and \<open>n\<close> epochs.\<close>

definition two_samples :: "(nat, unit, fl) env" where
  "two_samples =
     fixture_env [[[Fin 1, Fin 2]], [[Fin 3, Fin 4]]]
       [[Fin 0, Fin 0, Fin 1], [Fin 12, Fin 1, Fin 0]] []"

definition two_samples_dataset :: "sample list" where
  "two_samples_dataset =
     [([Fin 1, Fin 2], [Fin 0, Fin 0, Fin 1]), ([Fin 3, Fin 4], [Fin 12, Fin 1, Fin 0])]"

definition first_sample_loader :: loader where
  "first_sample_loader = \<lparr>subset = [0], batch = 124, shuffled = True\<rparr>"

definition second_sample_loader :: loader where
  "second_sample_loader = \<lparr>subset = [1], batch = 1, shuffled = False\<rparr>"

definition run_args :: "int \<Rightarrow> args" where
  "run_args n =
     default_args\<lparr>model_index := 1, num_epoch := n, g_latent := 2, latent_dim := 2,
       num_joints := 1, num_actions := 3\<rparr>"

text \<open>A dataset file of a single sample.\<close>

definition one_sample :: "(nat, unit, fl) env" where
  "one_sample = fixture_env [[[Fin 1, Fin 2]]] [[Fin 0, Fin 0, Fin 1]] []"

text \<open>The same environment with the dataset file missing.\<close>

definition missing_dataset :: "(nat, unit, fl) env" where
  "missing_dataset = two_samples\<lparr>np_load := (\<lambda>_. Inl OSError)\<rparr>"

text \<open>The two samples with a forward kinematics that has no position (NaN) at the joint
  angle 3, which the policy reaches after one optimizer step.\<close>

definition singular_kinematics :: "(nat, unit, fl) env" where
  "singular_kinematics =
     two_samples\<lparr>end_effector_pose :=
       (\<lambda>x. Inr (map (\<lambda>r. [if hd r = Fin 3 then NaN else hd r, Fin 0, Fin 0]) x))\<rparr>"

text \<open>A dataset file of four samples, of which the split validates on the last two, with
  a forward kinematics that returns the position of the first sample only.\<close>

definition single_position :: "(nat, unit, fl) env" where
  "single_position =
     (fixture_env [[[Fin 1, Fin 2]], [[Fin 3, Fin 4]], [[Fin 5, Fin 6]], [[Fin 7, Fin 8]]]
        [[Fin 1, Fin 0, Fin 0], [Fin 3, Fin 0, Fin 0], [Fin 5, Fin 0, Fin 0], [Fin 7, Fin 0, Fin 0]] [])
       \<lparr>end_effector_pose := (\<lambda>x. Inr (map (\<lambda>r. [hd r, Fin 0, Fin 0]) (take 1 x)))\<rparr>"

text \<open>A dataset file of two samples whose latents start with NaN, and a policy that
  returns the latents it is given.\<close>

definition nan_latents :: "(nat, unit, fl) env" where
  "nan_latents =
     (fixture_env [[[NaN, Fin 2]], [[NaN, Fin 4]]]
        [[Fin 0, Fin 0, Fin 1], [Fin 12, Fin 1, Fin 0]] [])
       \<lparr>policy_forward := (\<lambda>_ _ x. Inr x)\<rparr>"

text \<open>The definitions a concrete run unfolds.\<close>

lemmas run_defs =
  main_def two_samples_def two_samples_dataset_def first_sample_loader_def
  second_sample_loader_def run_args_def fixture_env_def default_args_def load_dataset_def
  first_slice_def TensorDataset_def train_size_of_def round53_def bitlen.simps random_split_def
  DataLoader_def save_path_of_def path_join_def save_arguments_def initial_state_def epoch_def
  training_def validation_def iter_loader_def items_at_def forward_def last_pose_def
  unnormalize_def torch_mse_loss_def broadcast_def fl_mean_def squared_error_def
  np_concatenate_def plots_def plot_scatter_def column_def plot_latent_distributions_def
  hist_def ncols_def plot_loss_def checkpoint_def data_path_def

section \<open>Properties\<close>

subsection \<open>Debug sampling in \<^verbatim>\<open>load_dataset\<close>\<close>

text \<open>
  Claim C8 says that with \<^verbatim>\<open>--debug\<close> each of the 10 random indices is a valid index
  into the latents array and that a dataset of 10 pairs is returned.
  \<^verbatim>\<open>np.random.random_integers(0, len(latents), 10)\<close> draws from the closed interval, so
  the length itself can be drawn. On a file of two samples and a draw that starts with 2
  (every draw is between 0 and 2), indexing raises IndexError and no dataset is returned.
\<close>

theorem debug_index_out_of_range:
  "list_all (\<lambda>i::int. 0 \<le> i \<and> i \<le> 2) [2, 0, 1, 0, 1, 0, 1, 0, 1, 0]
   \<and> load_dataset
       (fixture_env [[[Fin 1, Fin 2]], [[Fin 3, Fin 4]]]
          [[Fin 0, Fin 0, Fin 1], [Fin 0, Fin 1, Fin 0]] [2, 0, 1, 0, 1, 0, 1, 0, 1, 0])
       ''rgb_model_v1'' True = Inl IndexError"
  by (simp add: load_dataset_def fixture_env_def first_slice_def)

subsection \<open>Paths, plots and the effect of one epoch\<close>

lemma path_join_name:
  "b \<noteq> [] \<Longrightarrow> hd b \<noteq> CHR ''/'' \<Longrightarrow>
   path_join a b = (if a = [] \<or> last a = CHR ''/'' then a else a @ ''/'') @ b"
  by (simp add: path_join_def)

lemma path_join_eq_iff:
  "b \<noteq> [] \<Longrightarrow> hd b \<noteq> CHR ''/'' \<Longrightarrow> c \<noteq> [] \<Longrightarrow> hd c \<noteq> CHR ''/'' \<Longrightarrow>
   (path_join a b = path_join a c) = (b = c)"
  by (simp add: path_join_name)

lemma plot_scatter_Inr:
  "plot_scatter c t p fs = Inr fs' \<Longrightarrow> fs' = (p, Scatter c t) # fs"
  by (auto simp: plot_scatter_def split: sum.splits)

lemma plot_latent_distributions_Inr:
  "plot_latent_distributions l p fs = Inr fs' \<Longrightarrow> fs' = (p, LatentHist l) # fs"
  by (auto simp: plot_latent_distributions_def split: if_splits sum.splits)

lemma plot_loss_Inr:
  "plot_loss tr v t p fs = Inr fs' \<Longrightarrow> fs' = (p, LossCurve t tr v) # fs"
  by (auto simp: plot_loss_def split: if_splits)

lemma plots_Inr:
  assumes "plots env sp tp tt vp vt lat st = Inr st'"
  shows "st' = st\<lparr>files :=
      [(path_join sp ''avg_log_mse.png'',
          LossCurve ''Avg mse in log scale'' (map (np_log env) (avg_train_losses st))
            (map (np_log env) (avg_val_losses st))),
       (path_join sp ''avg_mse.png'', LossCurve ''Avg mse'' (avg_train_losses st) (avg_val_losses st)),
       (path_join sp ''latents_distribution.png'', LatentHist lat),
       (path_join sp ''full_scatter.png'', Scatter (tp @ vp) (tt @ vt)),
       (path_join sp ''val_scatter.png'', Scatter vp vt),
       (path_join sp ''train_scatter.png'', Scatter tp tt)] @ files st\<rparr>"
  using assms
  by (auto simp: plots_def split: sum.splits
      dest!: plot_scatter_Inr plot_latent_distributions_Inr plot_loss_Inr)

lemma plots_Inl: "plots env sp tp tt vp vt lat st = Inl (err, fs) \<Longrightarrow> \<exists>x. err = Library x"
  by (auto simp: plots_def split: sum.splits)

lemma epoch_Inl:
  "epoch env vae ds trl tel sp e st = Inl (err, fs) \<Longrightarrow> \<exists>x. err = Library x"
  by (auto simp: epoch_def split: sum.splits prod.splits dest: plots_Inl)

lemma epochs_Inl:
  "epochs env vae ds trl tel sp es st = Inl (err, fs) \<Longrightarrow> \<exists>x. err = Library x"
  by (induction es arbitrary: st) (auto split: sum.splits dest: epoch_Inl)

lemma epoch_effect:
  assumes "epoch env vae ds trl tel sp e st = Inr st'"
  obtains pol avg_train tp tt lat avg_val vp vt lat' where
    "training env vae ds trl e (policy st) = Inr (pol, avg_train, tp, tt, lat)"
    "validation env vae ds tel pol lat = Inr (avg_val, vp, vt, lat')"
    "policy st' = pol"
    "avg_train_losses st' = avg_train_losses st @ [avg_train]"
    "avg_val_losses st' = avg_val_losses st @ [avg_val]"
    "best_val st' = (if fl_less avg_val (best_val st) then avg_val else best_val st)"
    "files st' =
      [(path_join sp ''avg_log_mse.png'',
          LossCurve ''Avg mse in log scale'' (map (np_log env) (avg_train_losses st'))
            (map (np_log env) (avg_val_losses st'))),
       (path_join sp ''avg_mse.png'',
          LossCurve ''Avg mse'' (avg_train_losses st') (avg_val_losses st')),
       (path_join sp ''latents_distribution.png'', LatentHist lat'),
       (path_join sp ''full_scatter.png'', Scatter (tp @ vp) (tt @ vt)),
       (path_join sp ''val_scatter.png'', Scatter vp vt),
       (path_join sp ''train_scatter.png'', Scatter tp tt)]
      @ (if fl_less avg_val (best_val st)
         then [(path_join sp ''model.pth.tar'', StateDict pol)] else [])
      @ files st"
proof -
  from assms obtain pol avg_train tp tt lat avg_val vp vt lat' where
    tr: "training env vae ds trl e (policy st) = Inr (pol, avg_train, tp, tt, lat)" and
    va: "validation env vae ds tel pol lat = Inr (avg_val, vp, vt, lat')" and
    pl: "plots env sp tp tt vp vt lat'
          (checkpoint sp avg_val
            (st\<lparr>policy := pol, avg_train_losses := avg_train_losses st @ [avg_train],
                 avg_val_losses := avg_val_losses st @ [avg_val]\<rparr>)) = Inr st'"
    by (auto simp: epoch_def split: sum.splits prod.splits)
  note eq = plots_Inr [OF pl]
  show thesis
    by (rule that [OF tr va]) (simp_all add: eq checkpoint_def)
qed

subsection \<open>Checkpoints\<close>

lemma fl_less_trans: "fl_less a b \<Longrightarrow> fl_less b c \<Longrightarrow> fl_less a c"
  by (cases a; cases b; cases c) simp_all

lemma fl_less_not_NaN: "fl_less a b \<Longrightarrow> a \<noteq> NaN \<and> b \<noteq> NaN"
  by (cases a; cases b) simp_all

lemma fl_less_PInf: "fl_less a b \<Longrightarrow> fl_less a PInf"
  by (cases a; cases b) simp_all

lemma fl_less_le_trans:
  "fl_less c b \<Longrightarrow> a \<noteq> NaN \<Longrightarrow> \<not> fl_less a b \<Longrightarrow> fl_less c a"
  by (cases a; cases b; cases c) simp_all

lemma fl_less_finite: "is_finite a \<Longrightarrow> fl_less a PInf \<and> a \<noteq> NaN"
  by (cases a) (simp_all add: is_finite_def)

text \<open>The running best after the validation losses \<open>vs\<close>: a loss is below it exactly when it
  is below \<^verbatim>\<open>np.inf\<close> and below every loss of \<open>vs\<close> that is not NaN.\<close>

lemma best_val_invariant_step:
  assumes inv: "\<And>v. fl_less v b = (fl_less v PInf \<and> (\<forall>u\<in>set vs. u \<noteq> NaN \<longrightarrow> fl_less v u))"
  shows "fl_less v (if fl_less w b then w else b)
    = (fl_less v PInf \<and> (\<forall>u\<in>set (vs @ [w]). u \<noteq> NaN \<longrightarrow> fl_less v u))"
proof (cases "fl_less w b")
  case True
  with inv have w: "\<forall>u\<in>set vs. u \<noteq> NaN \<longrightarrow> fl_less w u" by simp
  from True have wn: "w \<noteq> NaN" by (simp add: fl_less_not_NaN)
  have "fl_less v w \<Longrightarrow> fl_less v PInf" by (rule fl_less_PInf)
  moreover have "fl_less v w \<Longrightarrow> \<forall>u\<in>set vs. u \<noteq> NaN \<longrightarrow> fl_less v u"
    using w by (blast intro: fl_less_trans)
  ultimately show ?thesis using True wn by auto
next
  case False
  have "fl_less v w" if v: "fl_less v b" and wn: "w \<noteq> NaN"
    by (rule fl_less_le_trans [OF v wn False])
  with False inv show ?thesis by auto
qed

lemma epochs_best_val:
  assumes "epochs env vae ds trl tel sp es st = Inr st'"
    and "\<And>v. fl_less v (best_val st)
          = (fl_less v PInf \<and> (\<forall>u\<in>set (avg_val_losses st). u \<noteq> NaN \<longrightarrow> fl_less v u))"
  shows "(\<forall>v. fl_less v (best_val st')
          = (fl_less v PInf \<and> (\<forall>u\<in>set (avg_val_losses st'). u \<noteq> NaN \<longrightarrow> fl_less v u)))
    \<and> length (avg_val_losses st') = length (avg_val_losses st) + length es"
  using assms
proof (induction es arbitrary: st)
  case Nil
  then show ?case by simp
next
  case (Cons e es)
  from Cons.prems(1) obtain st1 where
    e1: "epoch env vae ds trl tel sp e st = Inr st1" and
    rest: "epochs env vae ds trl tel sp es st1 = Inr st'"
    by (auto split: sum.splits)
  from e1 obtain w where
    w: "avg_val_losses st1 = avg_val_losses st @ [w]"
       "best_val st1 = (if fl_less w (best_val st) then w else best_val st)"
    by (rule epoch_effect)
  have "\<And>v. fl_less v (best_val st1)
          = (fl_less v PInf \<and> (\<forall>u\<in>set (avg_val_losses st1). u \<noteq> NaN \<longrightarrow> fl_less v u))"
    unfolding w by (rule best_val_invariant_step) (rule Cons.prems(2))
  from Cons.IH [OF rest this] show ?case by (simp add: w)
qed

text \<open>
  Claim C1, amended. Let a run have completed \<open>k\<close> epochs from the initial state (best value
  \<^verbatim>\<open>np.inf\<close>) and complete the next one with average validation loss \<open>v\<close>. That epoch
  writes \<^verbatim>\<open>model.pth.tar\<close> under the save path if and only if \<open>v\<close> is below the running
  best, which is the case if and only if \<open>v\<close> is below \<^verbatim>\<open>np.inf\<close> (so neither NaN nor
  infinite upwards) and strictly smaller than the average validation loss of every
  previous epoch that is not NaN. Then the file holds the policy of that epoch, and
  otherwise its content is what it was before the epoch. When \<open>v\<close> and the losses of the
  previous epochs are all finite, the file is written if and only if \<open>v\<close> is strictly
  smaller than every one of them.
\<close>

theorem checkpoint_iff_below_best:
  assumes run: "epochs env vae ds trl tel sp [0..<k] (initial_state pol0 fs) = Inr st"
    and step: "epoch env vae ds trl tel sp k st = Inr st'"
  shows "\<exists>v new.
      length (avg_val_losses st) = k
      \<and> avg_val_losses st' = avg_val_losses st @ [v]
      \<and> files st' = new @ files st
      \<and> ((path_join sp ''model.pth.tar'' \<in> fst ` set new) = fl_less v (best_val st))
      \<and> fl_less v (best_val st)
          = (fl_less v PInf \<and> (\<forall>u\<in>set (avg_val_losses st). u \<noteq> NaN \<longrightarrow> fl_less v u))
      \<and> map_of (files st') (path_join sp ''model.pth.tar'') =
          (if fl_less v PInf \<and> (\<forall>u\<in>set (avg_val_losses st). u \<noteq> NaN \<longrightarrow> fl_less v u)
           then Some (StateDict (policy st'))
           else map_of (files st) (path_join sp ''model.pth.tar''))
      \<and> (is_finite v \<and> list_all is_finite (avg_val_losses st) \<longrightarrow>
           (path_join sp ''model.pth.tar'' \<in> fst ` set new)
             = (\<forall>u\<in>set (avg_val_losses st). fl_less v u))"
proof -
  have init: "\<And>v. fl_less v (best_val (initial_state pol0 fs))
      = (fl_less v PInf
         \<and> (\<forall>u\<in>set (avg_val_losses (initial_state pol0 fs)). u \<noteq> NaN \<longrightarrow> fl_less v u))"
    by (simp add: initial_state_def)
  from epochs_best_val [OF run init]
  have inv: "\<And>v. fl_less v (best_val st)
      = (fl_less v PInf \<and> (\<forall>u\<in>set (avg_val_losses st). u \<noteq> NaN \<longrightarrow> fl_less v u))"
    and len: "length (avg_val_losses st) = k"
    by (simp_all add: initial_state_def)
  have fin: "(fl_less v PInf \<and> (\<forall>u\<in>set (avg_val_losses st). u \<noteq> NaN \<longrightarrow> fl_less v u))
      = (\<forall>u\<in>set (avg_val_losses st). fl_less v u)"
    if "is_finite v" "list_all is_finite (avg_val_losses st)" for v
    using that by (auto simp: list_all_iff dest: fl_less_finite)
  from step show ?thesis
  proof (rule epoch_effect)
    fix pol avg_train tp tt lat avg_val vp vt lat'
    assume p: "policy st' = pol"
      and v: "avg_val_losses st' = avg_val_losses st @ [avg_val]"
      and f: "files st' =
      [(path_join sp ''avg_log_mse.png'',
          LossCurve ''Avg mse in log scale'' (map (np_log env) (avg_train_losses st'))
            (map (np_log env) (avg_val_losses st'))),
       (path_join sp ''avg_mse.png'',
          LossCurve ''Avg mse'' (avg_train_losses st') (avg_val_losses st')),
       (path_join sp ''latents_distribution.png'', LatentHist lat'),
       (path_join sp ''full_scatter.png'', Scatter (tp @ vp) (tt @ vt)),
       (path_join sp ''val_scatter.png'', Scatter vp vt),
       (path_join sp ''train_scatter.png'', Scatter tp tt)]
      @ (if fl_less avg_val (best_val st)
         then [(path_join sp ''model.pth.tar'', StateDict pol)] else [])
      @ files st"
    let ?new = "[(path_join sp ''avg_log_mse.png'',
          LossCurve ''Avg mse in log scale'' (map (np_log env) (avg_train_losses st'))
            (map (np_log env) (avg_val_losses st'))),
       (path_join sp ''avg_mse.png'',
          LossCurve ''Avg mse'' (avg_train_losses st') (avg_val_losses st')),
       (path_join sp ''latents_distribution.png'', LatentHist lat'),
       (path_join sp ''full_scatter.png'', Scatter (tp @ vp) (tt @ vt)),
       (path_join sp ''val_scatter.png'', Scatter vp vt),
       (path_join sp ''train_scatter.png'', Scatter tp tt)]
      @ (if fl_less avg_val (best_val st)
         then [(path_join sp ''model.pth.tar'', StateDict pol)] else [])"
    have new: "files st' = ?new @ files st" by (simp add: f)
    have mem: "(path_join sp ''model.pth.tar'' \<in> fst ` set ?new) = fl_less avg_val (best_val st)"
      by (auto simp: path_join_eq_iff)
    have look: "map_of (files st') (path_join sp ''model.pth.tar'') =
          (if fl_less avg_val (best_val st) then Some (StateDict (policy st'))
           else map_of (files st) (path_join sp ''model.pth.tar''))"
      by (simp add: f p path_join_eq_iff)
    have finite: "is_finite avg_val \<and> list_all is_finite (avg_val_losses st) \<longrightarrow>
           (path_join sp ''model.pth.tar'' \<in> fst ` set ?new)
             = (\<forall>u\<in>set (avg_val_losses st). fl_less avg_val u)"
      unfolding mem using fin [of avg_val] inv [of avg_val] by blast
    have look': "map_of (files st') (path_join sp ''model.pth.tar'') =
          (if fl_less avg_val PInf
              \<and> (\<forall>u\<in>set (avg_val_losses st). u \<noteq> NaN \<longrightarrow> fl_less avg_val u)
           then Some (StateDict (policy st'))
           else map_of (files st) (path_join sp ''model.pth.tar''))"
      unfolding inv [of avg_val, symmetric] by (rule look)
    show ?thesis
      by (rule exI [of _ avg_val], rule exI [of _ ?new])
        (intro conjI; (rule len v new mem inv look' finite))
  qed
qed

theorem checkpoint_iff_below_best_witness:
  "\<exists>st st'.
     epochs two_samples () two_samples_dataset first_sample_loader second_sample_loader
       ''../policy_log/model_v1'' [0..<1] (initial_state 0 []) = Inr st
     \<and> epoch two_samples () two_samples_dataset first_sample_loader second_sample_loader
       ''../policy_log/model_v1'' 1 st = Inr st'
     \<and> avg_val_losses st = [Fin (82 / 3)] \<and> avg_val_losses st' = [Fin (82 / 3), Fin (10 / 3)]
     \<and> map_of (files st') (path_join ''../policy_log/model_v1'' ''model.pth.tar'')
         = Some (StateDict (policy st'))"
proof -
  let ?run = "epochs two_samples () two_samples_dataset first_sample_loader second_sample_loader
       ''../policy_log/model_v1'' [0..<1] (initial_state 0 [])"
  let ?step = "epoch two_samples () two_samples_dataset first_sample_loader second_sample_loader
       ''../policy_log/model_v1'' 1 (projr ?run)"
  have run: "?run = Inr (projr ?run)" by (simp add: run_defs)
  have step: "?step = Inr (projr ?step)" by (simp add: run_defs)
  have v: "avg_val_losses (projr ?run) = [Fin (82 / 3)]" by (simp add: run_defs)
  have v': "avg_val_losses (projr ?step) = [Fin (82 / 3), Fin (10 / 3)]" by (simp add: run_defs)
  from checkpoint_iff_below_best [OF run step] v v'
  have "map_of (files (projr ?step)) (path_join ''../policy_log/model_v1'' ''model.pth.tar'')
         = Some (StateDict (policy (projr ?step)))"
    by auto
  with run step v v' show ?thesis by blast
qed

text \<open>
  Claim C1 as stated fails when a loss is NaN. With the forward kinematics that has no
  position at the angle 3, the first epoch has the average validation loss NaN and writes
  no checkpoint; the second has the loss \<open>10 / 3\<close>, which is not smaller than the NaN of
  the first, and writes the checkpoint.
\<close>

theorem nan_loss_then_checkpoint:
  "main singular_kinematics (run_args 1) []
     = Inr (projr (main singular_kinematics (run_args 1) []))
   \<and> avg_val_losses (projr (main singular_kinematics (run_args 1) [])) = [NaN]
   \<and> map_of (files (projr (main singular_kinematics (run_args 1) [])))
        ''../policy_log/model_v1/model.pth.tar'' = None
   \<and> main singular_kinematics (run_args 2) []
     = Inr (projr (main singular_kinematics (run_args 2) []))
   \<and> avg_val_losses (projr (main singular_kinematics (run_args 2) [])) = [NaN, Fin (10 / 3)]
   \<and> fl_less (Fin (10 / 3)) NaN = False
   \<and> map_of (files (projr (main singular_kinematics (run_args 2) [])))
        ''../policy_log/model_v1/model.pth.tar'' = Some (StateDict 2)"
proof -
  let ?one = "main singular_kinematics (run_args 1) []"
  let ?two = "main singular_kinematics (run_args 2) []"
  have one: "?one = Inr (projr ?one)" by (simp add: singular_kinematics_def run_defs)
  have two: "?two = Inr (projr ?two)"
    by (simp add: singular_kinematics_def run_defs numeral_2_eq_2)
  have v: "avg_val_losses (projr ?one) = [NaN]" by (simp add: singular_kinematics_def run_defs)
  have f: "map_of (files (projr ?one)) ''../policy_log/model_v1/model.pth.tar'' = None"
    by (simp add: singular_kinematics_def run_defs)
  have v': "avg_val_losses (projr ?two) = [NaN, Fin (10 / 3)]"
    by (simp add: singular_kinematics_def run_defs numeral_2_eq_2)
  have f': "map_of (files (projr ?two)) ''../policy_log/model_v1/model.pth.tar''
      = Some (StateDict 2)"
    by (simp add: singular_kinematics_def run_defs numeral_2_eq_2)
  have n: "fl_less (Fin (10 / 3)) NaN = False" by simp
  show ?thesis by (intro conjI; (rule one v f two v' n f'))
qed

subsection \<open>The validation scatter plot\<close>

lemma last_joint_pose_eq: "last_joint_pose t = last_pose t"
proof -
  have 1: "list_ex (list_ex (\<lambda>actions. length actions = 0)) t
      = (\<not> list_all (list_all (\<lambda>r. r \<noteq> [])) t)"
    by (auto simp: list_all_iff list_ex_iff)
  have 2: "map (map (\<lambda>actions. actions ! (length actions - 1))) t = map (map last) t"
    if "list_all (list_all (\<lambda>r. r \<noteq> [])) t"
    using that by (auto simp: list_all_iff last_conv_nth)
  from 1 2 show ?thesis by (simp add: last_joint_pose_def last_pose_def)
qed

lemma forward_eq:
  assumes "forward env vae m pol l t = Inr (loss, pose, lat2)"
  shows "decoded_end_pose env vae m pol l = Inr pose \<and> mse_loss env pose t = Inr loss"
proof -
  from assms obtain d tr j where
    "policy_forward env m pol l = Inr lat2" "traj_decoder env vae lat2 = Inr d"
    "to_trajectory env vae d = Inr tr" "last_pose tr = Inr j"
    "end_effector_pose env (unnormalize env j) = Inr pose" and
    mse: "mse_loss env pose t = Inr loss"
    by (auto simp: forward_def split: sum.splits)
  then have "decoded_end_pose env vae m pol l = Inr pose"
    by (simp add: decoded_end_pose_def and_then_def unnormalize_def last_joint_pose_eq)
  with mse show ?thesis by simp
qed

lemma last_pose_rows: "last_pose t = Inr j \<Longrightarrow> length j = length t"
  by (auto simp: last_pose_def split: if_splits)

lemma forward_rows:
  assumes "forward env vae m pol l t = Inr (loss, pose, lat)" and "rows_ok env vae"
  shows "length pose = length l"
proof -
  from assms(1) obtain l2 d tr j where
    1: "policy_forward env m pol l = Inr l2" and
    2: "traj_decoder env vae l2 = Inr d" and
    3: "to_trajectory env vae d = Inr tr" and
    4: "last_pose tr = Inr j" and
    5: "end_effector_pose env (unnormalize env j) = Inr pose"
    by (auto simp: forward_def split: sum.splits)
  from assms(2) 1 have "length l2 = length l" unfolding rows_ok_def by blast
  moreover from assms(2) 2 3 have "length tr = length l2" unfolding rows_ok_def by blast
  moreover from 4 have "length j = length tr" by (rule last_pose_rows)
  moreover from assms(2) 5 have "length pose = length (unnormalize env j)"
    unfolding rows_ok_def by blast
  ultimately show ?thesis by (simp add: unnormalize_def)
qed

lemma val_batches_rows:
  assumes "val_batches env vae pol bs (ls, eps, tps, lats) = Inr (ls', eps', tps', lats')"
    and "rows_ok env vae" and "\<forall>b\<in>set bs. length (fst b) = length (snd b)"
  shows "length (concat eps') + 2 * length (concat tps)
    = length (concat eps) + 2 * length (concat tps')"
  using assms(1,3)
proof (induction bs arbitrary: ls eps tps lats)
  case Nil
  then show ?case by simp
next
  case (Cons b bs)
  obtain l t where b: "b = (l, t)" by (cases b)
  from Cons.prems(1) obtain loss pose lat where
    fw: "forward env vae False pol l t = Inr (loss, pose, lat)" and
    rest: "val_batches env vae pol bs
             (ls @ [item env loss], (eps @ [pose]) @ [pose], tps @ [t], lats @ [lat])
           = Inr (ls', eps', tps', lats')"
    by (auto simp: b split: sum.splits)
  from Cons.prems(2) have lt: "length l = length t" and bs: "\<forall>b\<in>set bs. length (fst b) = length (snd b)"
    by (simp_all add: b)
  from Cons.IH [OF rest bs] forward_rows [OF fw assms(2)] lt show ?case by simp
qed

lemma iter_loader_pairs:
  "iter_loader env ds l k = Inr bs \<Longrightarrow> \<forall>b\<in>set bs. length (fst b) = length (snd b)"
  by (auto simp: iter_loader_def Let_def split: sum.splits)

lemma validation_rows:
  assumes "validation env vae ds tel pol lat = Inr (avg_val, vp, vt, lat')"
    and "rows_ok env vae"
  shows "length vp = 2 * length vt"
proof -
  from assms(1) obtain bs ls eps tps lats where
    it: "iter_loader env ds tel 0 = Inr bs" and
    vb: "val_batches env vae pol bs ([], [], [], lat) = Inr (ls, eps, tps, lats)" and
    vp: "vp = concat eps" and vt: "vt = concat tps"
    by (auto simp: validation_def np_concatenate_def split: sum.splits prod.splits if_splits)
  from val_batches_rows [OF vb assms(2) iter_loader_pairs [OF it]] show ?thesis
    by (simp add: vp vt)
qed

lemma fixture_rows_ok: "rows_ok (fixture_env lat tgt draws) ()"
  by (auto simp: rows_ok_def fixture_env_def)

lemma val_batches_collect:
  assumes "val_batches env vae pol bs (ls, eps, tps, lats) = Inr (ls', eps', tps', lats')"
  shows "\<exists>poses. map (\<lambda>b. decoded_end_pose env vae False pol (fst b)) bs = map Inr poses
    \<and> eps' = eps @ concat (map (\<lambda>p. [p, p]) poses)
    \<and> tps' = tps @ map snd bs"
  using assms
proof (induction bs arbitrary: ls eps tps lats)
  case Nil
  then show ?case by simp
next
  case (Cons b bs)
  obtain l t where b: "b = (l, t)" by (cases b)
  from Cons.prems obtain loss pose lat where
    fw: "forward env vae False pol l t = Inr (loss, pose, lat)" and
    rest: "val_batches env vae pol bs
             (ls @ [item env loss], (eps @ [pose]) @ [pose], tps @ [t], lats @ [lat])
           = Inr (ls', eps', tps', lats')"
    by (auto simp: b split: sum.splits)
  from Cons.IH [OF rest] obtain poses where
    ih: "map (\<lambda>b. decoded_end_pose env vae False pol (fst b)) bs = map Inr poses"
        "eps' = ((eps @ [pose]) @ [pose]) @ concat (map (\<lambda>p. [p, p]) poses)"
        "tps' = (tps @ [t]) @ map snd bs"
    by blast
  from forward_eq [OF fw] have d: "decoded_end_pose env vae False pol l = Inr pose" by simp
  show ?case
    by (rule exI [of _ "pose # poses"]) (simp add: b d ih)
qed

lemma validation_collect:
  assumes "validation env vae ds tel pol lat = Inr (avg_val, vp, vt, lat')"
  shows "\<exists>batches poses. iter_loader env ds tel 0 = Inr batches
    \<and> map (\<lambda>b. decoded_end_pose env vae False pol (fst b)) batches = map Inr poses
    \<and> vp = concat (concat (map (\<lambda>p. [p, p]) poses))
    \<and> vt = concat (map snd batches)"
proof -
  from assms obtain bs ls eps tps lats where
    it: "iter_loader env ds tel 0 = Inr bs" and
    vb: "val_batches env vae pol bs ([], [], [], lat) = Inr (ls, eps, tps, lats)" and
    vp: "vp = concat eps" and vt: "vt = concat tps"
    by (auto simp: validation_def np_concatenate_def split: sum.splits prod.splits if_splits)
  from val_batches_collect [OF vb] vp vt it show ?thesis by auto
qed

text \<open>
  Claim C9. In the validation pass of an epoch the predicted poses of every batch are
  appended twice and its targets once: the pose array that \<^verbatim>\<open>plot_scatter\<close> receives for
  \<^verbatim>\<open>val_scatter.png\<close> is the concatenation of the poses of each batch taken twice, and the
  target array the concatenation of the targets of the batches. When the models return one
  row per sample, the pose array therefore has exactly twice as many rows as the target
  array.
\<close>

theorem validation_poses_appended_twice:
  assumes "epoch env vae ds trl tel sp e st = Inr st'"
  shows "\<exists>batches batch_poses val_poses val_targets.
      iter_loader env ds tel 0 = Inr batches
      \<and> map (\<lambda>b. decoded_end_pose env vae False (policy st') (fst b)) batches
          = map Inr batch_poses
      \<and> map_of (files st') (path_join sp ''val_scatter.png'') = Some (Scatter val_poses val_targets)
      \<and> val_poses = concat (concat (map (\<lambda>p. [p, p]) batch_poses))
      \<and> val_targets = concat (map snd batches)
      \<and> (rows_ok env vae \<longrightarrow> length val_poses = 2 * length val_targets)"
  using assms
proof (rule epoch_effect)
  fix pol avg_train tp tt lat avg_val vp vt lat'
  assume va: "validation env vae ds tel pol lat = Inr (avg_val, vp, vt, lat')"
    and p: "policy st' = pol"
    and f: "files st' =
      [(path_join sp ''avg_log_mse.png'',
          LossCurve ''Avg mse in log scale'' (map (np_log env) (avg_train_losses st'))
            (map (np_log env) (avg_val_losses st'))),
       (path_join sp ''avg_mse.png'',
          LossCurve ''Avg mse'' (avg_train_losses st') (avg_val_losses st')),
       (path_join sp ''latents_distribution.png'', LatentHist lat'),
       (path_join sp ''full_scatter.png'', Scatter (tp @ vp) (tt @ vt)),
       (path_join sp ''val_scatter.png'', Scatter vp vt),
       (path_join sp ''train_scatter.png'', Scatter tp tt)]
      @ (if fl_less avg_val (best_val st)
         then [(path_join sp ''model.pth.tar'', StateDict pol)] else [])
      @ files st"
  have scatter: "map_of (files st') (path_join sp ''val_scatter.png'') = Some (Scatter vp vt)"
    by (simp add: f path_join_eq_iff)
  from validation_collect [OF va] obtain batches poses where
    c: "iter_loader env ds tel 0 = Inr batches"
       "map (\<lambda>b. decoded_end_pose env vae False pol (fst b)) batches = map Inr poses"
       "vp = concat (concat (map (\<lambda>p. [p, p]) poses))"
       "vt = concat (map snd batches)"
    by blast
  have rows: "rows_ok env vae \<longrightarrow> length vp = 2 * length vt"
    using validation_rows [OF va] by blast
  from c scatter rows show ?thesis unfolding p by blast
qed

theorem validation_poses_appended_twice_witness:
  "\<exists>st.
     epoch two_samples () two_samples_dataset first_sample_loader second_sample_loader
       ''../policy_log/model_v1'' 0 (initial_state 0 []) = Inr st
     \<and> rows_ok two_samples ()
     \<and> map_of (files st) (path_join ''../policy_log/model_v1'' ''val_scatter.png'')
         = Some (Scatter [[Fin 3, Fin 0, Fin 0], [Fin 3, Fin 0, Fin 0]] [[Fin 12, Fin 1, Fin 0]])
     \<and> length [[Fin 3, Fin 0, Fin 0], [Fin 3, Fin 0, Fin 0]] = 2 * length [[Fin 12, Fin 1, Fin 0]]"
proof -
  let ?step = "epoch two_samples () two_samples_dataset first_sample_loader second_sample_loader
       ''../policy_log/model_v1'' 0 (initial_state 0 [])"
  have step: "?step = Inr (projr ?step)" by (simp add: run_defs)
  have rows: "rows_ok two_samples ()" unfolding two_samples_def by (rule fixture_rows_ok)
  have f: "map_of (files (projr ?step)) (path_join ''../policy_log/model_v1'' ''val_scatter.png'')
         = Some (Scatter [[Fin 3, Fin 0, Fin 0], [Fin 3, Fin 0, Fin 0]] [[Fin 12, Fin 1, Fin 0]])"
    by (simp add: run_defs)
  from validation_poses_appended_twice [OF step] rows f
  have "length [[Fin 3, Fin 0, Fin 0], [Fin 3, Fin 0, Fin 0]] = 2 * length [[Fin 12, Fin 1, Fin 0]]"
    by auto
  with step rows f show ?thesis by blast
qed

text \<open>The row counts depend on the models. With a forward kinematics that returns a
  single position for a batch of two samples, \<^verbatim>\<open>F.mse_loss\<close> broadcasts the position
  against the two targets, the epoch completes, and the pose array of \<^verbatim>\<open>val_scatter.png\<close>
  has the two rows of the one position appended twice, for two target rows.\<close>

lemma upt_2_4: "[Suc (Suc 0)..<4] = [2, 3]"
  by (simp add: upt_rec)

lemma single_position_rows:
  "\<exists>st val_poses val_targets.
     main single_position (run_args 1) [] = Inr st
     \<and> map_of (files st) ''../policy_log/model_v1/val_scatter.png''
         = Some (Scatter val_poses val_targets)
     \<and> length val_poses = 2 \<and> length val_targets = 2"
proof -
  let ?run = "main single_position (run_args 1) []"
  have run: "?run = Inr (projr ?run)" by (simp add: single_position_def run_defs upt_2_4)
  have f: "map_of (files (projr ?run)) ''../policy_log/model_v1/val_scatter.png''
      = Some (Scatter [[Fin 3, Fin 0, Fin 0], [Fin 3, Fin 0, Fin 0]]
                [[Fin 5, Fin 0, Fin 0], [Fin 7, Fin 0, Fin 0]])"
    by (simp add: single_position_def run_defs upt_2_4)
  from run f show ?thesis by force
qed

subsection \<open>The output directory\<close>

lemma epoch_paths:
  assumes "epoch env vae ds trl tel sp e st = Inr st'"
  shows "fst ` set (files st) \<subseteq> fst ` set (files st')
    \<and> {path_join sp ''train_scatter.png'', path_join sp ''val_scatter.png'',
          path_join sp ''full_scatter.png'', path_join sp ''latents_distribution.png'',
          path_join sp ''avg_mse.png'', path_join sp ''avg_log_mse.png''}
         \<subseteq> fst ` set (files st')"
  using assms
proof (rule epoch_effect)
  fix pol avg_train tp tt lat avg_val vp vt lat'
  assume f: "files st' =
      [(path_join sp ''avg_log_mse.png'',
          LossCurve ''Avg mse in log scale'' (map (np_log env) (avg_train_losses st'))
            (map (np_log env) (avg_val_losses st'))),
       (path_join sp ''avg_mse.png'',
          LossCurve ''Avg mse'' (avg_train_losses st') (avg_val_losses st')),
       (path_join sp ''latents_distribution.png'', LatentHist lat'),
       (path_join sp ''full_scatter.png'', Scatter (tp @ vp) (tt @ vt)),
       (path_join sp ''val_scatter.png'', Scatter vp vt),
       (path_join sp ''train_scatter.png'', Scatter tp tt)]
      @ (if fl_less avg_val (best_val st)
         then [(path_join sp ''model.pth.tar'', StateDict pol)] else [])
      @ files st"
  have 1: "fst ` set (files st) \<subseteq> fst ` set (files st')"
    unfolding f by auto
  have 2: "{path_join sp ''train_scatter.png'', path_join sp ''val_scatter.png'',
          path_join sp ''full_scatter.png'', path_join sp ''latents_distribution.png'',
          path_join sp ''avg_mse.png'', path_join sp ''avg_log_mse.png''}
         \<subseteq> fst ` set (files st')"
    unfolding f by simp
  from 1 2 show ?thesis by blast
qed

text \<open>The checkpoint file of an epoch: written when the loss is below the running best,
  and otherwise there exactly when it was.\<close>

lemma epoch_checkpoint:
  assumes "epoch env vae ds trl tel sp e st = Inr st'"
  obtains w where
    "avg_val_losses st' = avg_val_losses st @ [w]"
    "best_val st' = (if fl_less w (best_val st) then w else best_val st)"
    "(path_join sp ''model.pth.tar'' \<in> fst ` set (files st'))
      = (fl_less w (best_val st) \<or> path_join sp ''model.pth.tar'' \<in> fst ` set (files st))"
  using assms
proof (rule epoch_effect)
  fix pol avg_train tp tt lat avg_val vp vt lat'
  assume v: "avg_val_losses st' = avg_val_losses st @ [avg_val]"
    and b: "best_val st' = (if fl_less avg_val (best_val st) then avg_val else best_val st)"
    and f: "files st' =
      [(path_join sp ''avg_log_mse.png'',
          LossCurve ''Avg mse in log scale'' (map (np_log env) (avg_train_losses st'))
            (map (np_log env) (avg_val_losses st'))),
       (path_join sp ''avg_mse.png'',
          LossCurve ''Avg mse'' (avg_train_losses st') (avg_val_losses st')),
       (path_join sp ''latents_distribution.png'', LatentHist lat'),
       (path_join sp ''full_scatter.png'', Scatter (tp @ vp) (tt @ vt)),
       (path_join sp ''val_scatter.png'', Scatter vp vt),
       (path_join sp ''train_scatter.png'', Scatter tp tt)]
      @ (if fl_less avg_val (best_val st)
         then [(path_join sp ''model.pth.tar'', StateDict pol)] else [])
      @ files st"
  have "(path_join sp ''model.pth.tar'' \<in> fst ` set (files st'))
      = (fl_less avg_val (best_val st) \<or> path_join sp ''model.pth.tar'' \<in> fst ` set (files st))"
    unfolding f by (auto simp: path_join_eq_iff)
  with v b show thesis by (rule that)
qed

lemma epochs_checkpoint:
  assumes "epochs env vae ds trl tel sp es st = Inr st'"
    and "(\<exists>v\<in>set (avg_val_losses st). fl_less v PInf)
          \<longrightarrow> path_join sp ''model.pth.tar'' \<in> fst ` set (files st)"
    and "(\<forall>v\<in>set (avg_val_losses st). \<not> fl_less v PInf)
          \<longrightarrow> best_val st = PInf \<and> (path_join sp ''model.pth.tar'' \<in> fst ` set (files st)) = c"
  shows "((\<exists>v\<in>set (avg_val_losses st'). fl_less v PInf)
          \<longrightarrow> path_join sp ''model.pth.tar'' \<in> fst ` set (files st'))
    \<and> ((\<forall>v\<in>set (avg_val_losses st'). \<not> fl_less v PInf)
          \<longrightarrow> (path_join sp ''model.pth.tar'' \<in> fst ` set (files st')) = c)
    \<and> length (avg_val_losses st') = length (avg_val_losses st) + length es"
  using assms
proof (induction es arbitrary: st)
  case Nil
  then show ?case by simp
next
  case (Cons e es)
  from Cons.prems(1) obtain st1 where
    e1: "epoch env vae ds trl tel sp e st = Inr st1" and
    rest: "epochs env vae ds trl tel sp es st1 = Inr st'"
    by (auto split: sum.splits)
  from e1 obtain w where
    v: "avg_val_losses st1 = avg_val_losses st @ [w]" and
    b: "best_val st1 = (if fl_less w (best_val st) then w else best_val st)" and
    m: "(path_join sp ''model.pth.tar'' \<in> fst ` set (files st1))
      = (fl_less w (best_val st) \<or> path_join sp ''model.pth.tar'' \<in> fst ` set (files st))"
    by (rule epoch_checkpoint)
  have j: "(\<exists>v\<in>set (avg_val_losses st1). fl_less v PInf)
          \<longrightarrow> path_join sp ''model.pth.tar'' \<in> fst ` set (files st1)"
  proof
    assume ex: "\<exists>v\<in>set (avg_val_losses st1). fl_less v PInf"
    show "path_join sp ''model.pth.tar'' \<in> fst ` set (files st1)"
    proof (cases "\<exists>v\<in>set (avg_val_losses st). fl_less v PInf")
      case True
      with Cons.prems(2) m show ?thesis by blast
    next
      case False
      with ex v have w: "fl_less w PInf" by auto
      from False Cons.prems(3) have "best_val st = PInf" by blast
      with w m show ?thesis by simp
    qed
  qed
  have k: "(\<forall>v\<in>set (avg_val_losses st1). \<not> fl_less v PInf)
          \<longrightarrow> best_val st1 = PInf \<and> (path_join sp ''model.pth.tar'' \<in> fst ` set (files st1)) = c"
  proof
    assume al: "\<forall>v\<in>set (avg_val_losses st1). \<not> fl_less v PInf"
    with v have prev: "\<forall>v\<in>set (avg_val_losses st). \<not> fl_less v PInf" and w: "\<not> fl_less w PInf"
      by simp_all
    from prev Cons.prems(3) have
      bp: "best_val st = PInf" and c: "(path_join sp ''model.pth.tar'' \<in> fst ` set (files st)) = c"
      by blast+
    from bp w b m c
    show "best_val st1 = PInf \<and> (path_join sp ''model.pth.tar'' \<in> fst ` set (files st1)) = c"
      by simp
  qed
  from Cons.IH [OF rest j k] show ?case by (simp add: v)
qed

lemma epochs_paths:
  assumes "epochs env vae ds trl tel sp es st = Inr st'"
  shows "fst ` set (files st) \<subseteq> fst ` set (files st')
    \<and> (es \<noteq> [] \<longrightarrow>
        {path_join sp ''train_scatter.png'', path_join sp ''val_scatter.png'',
         path_join sp ''full_scatter.png'', path_join sp ''latents_distribution.png'',
         path_join sp ''avg_mse.png'', path_join sp ''avg_log_mse.png''}
        \<subseteq> fst ` set (files st'))"
  using assms
proof (induction es arbitrary: st)
  case Nil
  then show ?case by simp
next
  case (Cons e es)
  from Cons.prems(1) obtain st1 where
    e1: "epoch env vae ds trl tel sp e st = Inr st1" and
    rest: "epochs env vae ds trl tel sp es st1 = Inr st'"
    by (auto split: sum.splits)
  from epoch_paths [OF e1] have
    p1: "fst ` set (files st) \<subseteq> fst ` set (files st1)" and
    p2: "{path_join sp ''train_scatter.png'', path_join sp ''val_scatter.png'',
          path_join sp ''full_scatter.png'', path_join sp ''latents_distribution.png'',
          path_join sp ''avg_mse.png'', path_join sp ''avg_log_mse.png''}
         \<subseteq> fst ` set (files st1)"
    by blast+
  from Cons.IH [OF rest] have sub: "fst ` set (files st1) \<subseteq> fst ` set (files st')"
    by blast
  from p1 p2 sub show ?case by blast
qed

lemma main_Inr:
  assumes "main env a fs0 = Inr st"
  shows "\<exists>vae ds trl tel pol.
    epochs env vae ds trl tel (save_path_of a) [0..<nat (num_epoch a)]
       (initial_state pol (save_arguments a (save_path_of a) fs0)) = Inr st"
  using assms unfolding main_def Let_def
  by (simp split: if_splits sum.splits prod.splits) blast

text \<open>
  Claim C5, amended. After a completed run the save path holds \<^verbatim>\<open>arguments.txt\<close>. When
  at least one epoch was run it also holds the six plots. It holds \<^verbatim>\<open>model.pth.tar\<close> when
  the average validation loss of some epoch was below \<^verbatim>\<open>np.inf\<close>; when the loss of every
  epoch was NaN or \<^verbatim>\<open>np.inf\<close>, the run wrote no checkpoint and the file is there only if
  it was before the run. With \<^verbatim>\<open>--num-epoch\<close> zero or negative the run writes the arguments
  file and nothing else.
\<close>

theorem output_files_after_run:
  assumes "main env a fs0 = Inr st"
  shows "path_join (save_path_of a) ''arguments.txt'' \<in> fst ` set (files st)
    \<and> (0 < num_epoch a \<longrightarrow>
        {path_join (save_path_of a) ''train_scatter.png'',
         path_join (save_path_of a) ''val_scatter.png'',
         path_join (save_path_of a) ''full_scatter.png'',
         path_join (save_path_of a) ''latents_distribution.png'',
         path_join (save_path_of a) ''avg_mse.png'',
         path_join (save_path_of a) ''avg_log_mse.png''}
        \<subseteq> fst ` set (files st))
    \<and> length (avg_val_losses st) = nat (num_epoch a)
    \<and> ((\<exists>v\<in>set (avg_val_losses st). fl_less v PInf) \<longrightarrow>
        path_join (save_path_of a) ''model.pth.tar'' \<in> fst ` set (files st))
    \<and> ((\<forall>v\<in>set (avg_val_losses st). \<not> fl_less v PInf) \<longrightarrow>
        (path_join (save_path_of a) ''model.pth.tar'' \<in> fst ` set (files st))
          = (path_join (save_path_of a) ''model.pth.tar'' \<in> fst ` set fs0))
    \<and> (\<not> 0 < num_epoch a \<longrightarrow> files st = save_arguments a (save_path_of a) fs0)"
proof -
  from main_Inr [OF assms] obtain vae ds trl tel pol where
    ep: "epochs env vae ds trl tel (save_path_of a) [0..<nat (num_epoch a)]
       (initial_state pol (save_arguments a (save_path_of a) fs0)) = Inr st"
    by blast
  let ?init = "initial_state pol (save_arguments a (save_path_of a) fs0)"
  have j: "(\<exists>v\<in>set (avg_val_losses ?init). fl_less v PInf)
          \<longrightarrow> path_join (save_path_of a) ''model.pth.tar'' \<in> fst ` set (files ?init)"
    by (simp add: initial_state_def)
  have k: "(\<forall>v\<in>set (avg_val_losses ?init). \<not> fl_less v PInf)
          \<longrightarrow> best_val ?init = PInf
            \<and> (path_join (save_path_of a) ''model.pth.tar'' \<in> fst ` set (files ?init))
              = (path_join (save_path_of a) ''model.pth.tar'' \<in> fst ` set fs0)"
    by (simp add: initial_state_def save_arguments_def path_join_eq_iff)
  from epochs_checkpoint [OF ep j k] have
    4: "(\<exists>v\<in>set (avg_val_losses st). fl_less v PInf) \<longrightarrow>
        path_join (save_path_of a) ''model.pth.tar'' \<in> fst ` set (files st)" and
    5: "(\<forall>v\<in>set (avg_val_losses st). \<not> fl_less v PInf) \<longrightarrow>
        (path_join (save_path_of a) ''model.pth.tar'' \<in> fst ` set (files st))
          = (path_join (save_path_of a) ''model.pth.tar'' \<in> fst ` set fs0)" and
    3: "length (avg_val_losses st) = nat (num_epoch a)"
    by (simp_all add: initial_state_def)
  from epochs_paths [OF ep] have
    sub: "fst ` set (save_arguments a (save_path_of a) fs0) \<subseteq> fst ` set (files st)" and
    all: "[0..<nat (num_epoch a)] \<noteq> [] \<Longrightarrow>
        {path_join (save_path_of a) ''train_scatter.png'',
         path_join (save_path_of a) ''val_scatter.png'',
         path_join (save_path_of a) ''full_scatter.png'',
         path_join (save_path_of a) ''latents_distribution.png'',
         path_join (save_path_of a) ''avg_mse.png'',
         path_join (save_path_of a) ''avg_log_mse.png''}
        \<subseteq> fst ` set (files st)"
    by (simp_all add: initial_state_def)
  have 1: "path_join (save_path_of a) ''arguments.txt'' \<in> fst ` set (files st)"
    using sub by (auto simp: save_arguments_def)
  have 2: "0 < num_epoch a \<longrightarrow>
        {path_join (save_path_of a) ''train_scatter.png'',
         path_join (save_path_of a) ''val_scatter.png'',
         path_join (save_path_of a) ''full_scatter.png'',
         path_join (save_path_of a) ''latents_distribution.png'',
         path_join (save_path_of a) ''avg_mse.png'',
         path_join (save_path_of a) ''avg_log_mse.png''}
        \<subseteq> fst ` set (files st)"
    using all by simp
  have 6: "\<not> 0 < num_epoch a \<longrightarrow> files st = save_arguments a (save_path_of a) fs0"
    using ep by (auto simp: initial_state_def)
  show ?thesis by (intro conjI; (rule 1 2 3 4 5 6))
qed

theorem output_files_after_run_witness:
  "\<exists>st. main two_samples (run_args 1) [] = Inr st
     \<and> 0 < num_epoch (run_args 1)
     \<and> avg_val_losses st = [Fin (82 / 3)]
     \<and> fst ` set (files st) =
        {''../policy_log/model_v1/arguments.txt'', ''../policy_log/model_v1/model.pth.tar'',
         ''../policy_log/model_v1/train_scatter.png'', ''../policy_log/model_v1/val_scatter.png'',
         ''../policy_log/model_v1/full_scatter.png'',
         ''../policy_log/model_v1/latents_distribution.png'',
         ''../policy_log/model_v1/avg_mse.png'', ''../policy_log/model_v1/avg_log_mse.png''}"
proof -
  let ?run = "main two_samples (run_args 1) []"
  have run: "?run = Inr (projr ?run)" by (simp add: run_defs)
  have n: "0 < num_epoch (run_args 1)" by (simp add: run_defs)
  have v: "avg_val_losses (projr ?run) = [Fin (82 / 3)]" by (simp add: run_defs)
  have sub: "fst ` set (files (projr ?run)) \<subseteq>
        {''../policy_log/model_v1/arguments.txt'', ''../policy_log/model_v1/model.pth.tar'',
         ''../policy_log/model_v1/train_scatter.png'', ''../policy_log/model_v1/val_scatter.png'',
         ''../policy_log/model_v1/full_scatter.png'',
         ''../policy_log/model_v1/latents_distribution.png'',
         ''../policy_log/model_v1/avg_mse.png'', ''../policy_log/model_v1/avg_log_mse.png''}"
    by (simp add: run_defs)
  from output_files_after_run [OF run] n v
  have "{''../policy_log/model_v1/arguments.txt'', ''../policy_log/model_v1/model.pth.tar'',
         ''../policy_log/model_v1/train_scatter.png'', ''../policy_log/model_v1/val_scatter.png'',
         ''../policy_log/model_v1/full_scatter.png'',
         ''../policy_log/model_v1/latents_distribution.png'',
         ''../policy_log/model_v1/avg_mse.png'', ''../policy_log/model_v1/avg_log_mse.png''}
        \<subseteq> fst ` set (files (projr ?run))"
    by (simp add: run_args_def default_args_def save_path_of_def path_join_def)
  with sub run n v show ?thesis by blast
qed

text \<open>Claim C5 as stated fails for a run of zero epochs: it completes, and neither the
  checkpoint nor a plot is written.\<close>

theorem no_epoch_no_checkpoint:
  "main two_samples (run_args 0) []
     = Inr (initial_state 0
         [(''../policy_log/model_v1/arguments.txt'', Arguments (run_args 0))])
   \<and> map_of [(''../policy_log/model_v1/arguments.txt'', Arguments (run_args 0) :: nat content)]
        ''../policy_log/model_v1/model.pth.tar'' = None
   \<and> map_of [(''../policy_log/model_v1/arguments.txt'', Arguments (run_args 0) :: nat content)]
        ''../policy_log/model_v1/val_scatter.png'' = None"
  by (simp add: run_defs)

text \<open>It also fails for a run of one epoch whose average validation loss is NaN: the run
  completes with the arguments file and the six plots, and without a checkpoint.\<close>

lemma nan_loss_no_checkpoint:
  "\<exists>st. main singular_kinematics (run_args 1) [] = Inr st
     \<and> avg_val_losses st = [NaN]
     \<and> fst ` set (files st) =
        {''../policy_log/model_v1/arguments.txt'',
         ''../policy_log/model_v1/train_scatter.png'', ''../policy_log/model_v1/val_scatter.png'',
         ''../policy_log/model_v1/full_scatter.png'',
         ''../policy_log/model_v1/latents_distribution.png'',
         ''../policy_log/model_v1/avg_mse.png'', ''../policy_log/model_v1/avg_log_mse.png''}"
proof -
  let ?run = "main singular_kinematics (run_args 1) []"
  have run: "?run = Inr (projr ?run)" by (simp add: singular_kinematics_def run_defs)
  have v: "avg_val_losses (projr ?run) = [NaN]" by (simp add: singular_kinematics_def run_defs)
  have f: "fst ` set (files (projr ?run)) =
        {''../policy_log/model_v1/arguments.txt'',
         ''../policy_log/model_v1/train_scatter.png'', ''../policy_log/model_v1/val_scatter.png'',
         ''../policy_log/model_v1/full_scatter.png'',
         ''../policy_log/model_v1/latents_distribution.png'',
         ''../policy_log/model_v1/avg_mse.png'', ''../policy_log/model_v1/avg_log_mse.png''}"
    by (simp add: singular_kinematics_def run_defs insert_commute)
  from run v f show ?thesis by blast
qed

subsection \<open>Errors\<close>

lemma main_Inl:
  assumes "main env a fs0 = Inl (err, fs)"
  shows "case err of Script x \<Rightarrow> x = AssertionError \<and> \<not> 0 < model_index a
         | Library x \<Rightarrow> 0 < model_index a"
proof (cases "0 < model_index a")
  case False
  with assms show ?thesis by (auto simp: main_def Let_def)
next
  case True
  have "\<exists>x. err = Library x"
    using assms True unfolding main_def Let_def
    by (simp split: sum.splits prod.splits) (auto dest: epochs_Inl)
  with True show ?thesis by auto
qed

text \<open>
  Claim C4, amended. The one check of its own that the script makes is the assertion
  \<^verbatim>\<open>args.model_index > 0\<close>: when it fails, \<open>main\<close> raises AssertionError after the
  arguments file is written and before any model or dataset is loaded. Every other failure
  of \<open>main\<close> is the exception of a library call, passed on unchanged and without recovery:
  a model that cannot be loaded, a dataset file that cannot be read, a policy that rejects
  a batch, and in \<^verbatim>\<open>load_parameters\<close> a checkpoint that cannot be read.
\<close>

theorem only_the_assertion_is_custom:
  "(\<forall>err fs. main env a fs0 = Inl (err, fs) \<longrightarrow>
      (case err of Script x \<Rightarrow> x = AssertionError \<and> \<not> 0 < model_index a
       | Library x \<Rightarrow> 0 < model_index a))
   \<and> (\<not> 0 < model_index a \<longrightarrow>
        main env a fs0 = Inl (Script AssertionError, save_arguments a (save_path_of a) fs0))
   \<and> (0 < model_index a \<longrightarrow>
        ROSTrajectoryVAE env (vae_name a) (latent_dim a) (num_actions a) (model_index a)
          (num_joints a) (BEHAVIOUR_ROOT env) = Inl x \<longrightarrow>
        main env a fs0 = Inl (Library x, save_arguments a (save_path_of a) fs0))
   \<and> (0 < model_index a \<longrightarrow>
        ROSTrajectoryVAE env (vae_name a) (latent_dim a) (num_actions a) (model_index a)
          (num_joints a) (BEHAVIOUR_ROOT env) = Inr vae \<longrightarrow>
        Predictor env (g_latent a) (latent_dim a) = Inr pol \<longrightarrow>
        Adam env pol (lr a) = Inr pol' \<longrightarrow>
        np_load env (data_path env (g_name a)) = Inl x \<longrightarrow>
        main env a fs0 = Inl (Library x, save_arguments a (save_path_of a) fs0))
   \<and> (policy_forward env True q latent_1 = Inl x \<longrightarrow>
        train_batches env vae ((latent_1, target_pose) # rest) (q, ls, eps, tps, lats) = Inl x)
   \<and> (torch_load (path_join load_path (model_name @ ''.pth.tar'')) = Inl x \<longrightarrow>
        load_parameters torch_load load_state_dict model load_path model_name = Inl x)"
proof (intro conjI allI impI)
  fix err fs
  assume "main env a fs0 = Inl (err, fs)"
  then show "case err of Script x \<Rightarrow> x = AssertionError \<and> \<not> 0 < model_index a
       | Library x \<Rightarrow> 0 < model_index a"
    by (rule main_Inl)
qed (simp_all add: main_def Let_def load_dataset_def forward_def load_parameters_def)

theorem only_the_assertion_is_custom_witness:
  "0 < model_index (run_args 1)
   \<and> np_load missing_dataset (data_path missing_dataset (g_name (run_args 1))) = Inl OSError
   \<and> main missing_dataset (run_args 1) []
       = Inl (Library OSError, [(''../policy_log/model_v1/arguments.txt'', Arguments (run_args 1))])
   \<and> \<not> 0 < model_index default_args
   \<and> main missing_dataset default_args []
       = Inl (Script AssertionError, [(''../policy_log/model_v1/arguments.txt'', Arguments default_args)])"
proof -
  have 1: "0 < model_index (run_args 1)" and 2: "\<not> 0 < model_index default_args"
    by (simp_all add: run_defs)
  have 3: "np_load missing_dataset (data_path missing_dataset (g_name (run_args 1))) = Inl OSError"
    by (simp add: missing_dataset_def)
  have 4: "ROSTrajectoryVAE missing_dataset (vae_name (run_args 1)) (latent_dim (run_args 1))
      (num_actions (run_args 1)) (model_index (run_args 1)) (num_joints (run_args 1))
      (BEHAVIOUR_ROOT missing_dataset) = Inr ()"
    "Predictor missing_dataset (g_latent (run_args 1)) (latent_dim (run_args 1)) = Inr 0"
    "Adam missing_dataset 0 (lr (run_args 1)) = Inr 0"
    by (simp_all add: missing_dataset_def run_defs)
  note at_run = only_the_assertion_is_custom
    [of missing_dataset "run_args 1" "[]" OSError "()" 0 0,
     THEN conjunct2, THEN conjunct2, THEN conjunct2, THEN conjunct1, rule_format]
  note at_default = only_the_assertion_is_custom
    [of missing_dataset default_args "[]", THEN conjunct2, THEN conjunct1, rule_format]
  from at_run [OF 1 4 3]
  have a: "main missing_dataset (run_args 1) []
       = Inl (Library OSError, save_arguments (run_args 1) (save_path_of (run_args 1)) [])"
    by simp
  from at_default [OF 2]
  have b: "main missing_dataset default_args []
       = Inl (Script AssertionError, save_arguments default_args (save_path_of default_args) [])"
    by simp
  from 1 2 3 a b show ?thesis
    by (simp add: save_arguments_def save_path_of_def path_join_def run_args_def default_args_def)
qed

text \<open>Claim C4 as stated fails with the default \<^verbatim>\<open>--model-index -1\<close>: the script's own
  assertion raises before any library call could fail.\<close>

theorem default_model_index_asserts:
  "main two_samples default_args []
     = Inl (Script AssertionError,
            [(''../policy_log/model_v1/arguments.txt'', Arguments default_args)])"
  by (simp add: run_defs)


subsection \<open>The train and test split\<close>

lemma bitlen_bounds: "0 < P \<Longrightarrow> 2 ^ (bitlen P - 1) \<le> P \<and> P < 2 ^ bitlen P"
proof (induction P rule: bitlen.induct)
  case (1 n)
  show ?case
  proof (cases "n = 1")
    case True
    then show ?thesis by (simp add: bitlen.simps)
  next
    case False
    with "1.prems" have h: "0 < n div 2" by simp
    from "1.prems" have "\<not> n \<le> 0" by simp
    from "1.IH" [OF this h] have ih: "2 ^ (bitlen (n div 2) - 1) \<le> n div 2" "n div 2 < 2 ^ bitlen (n div 2)"
      by simp_all
    from h have "0 < bitlen (n div 2)"
      by (subst bitlen.simps) simp
    then have b: "bitlen (n div 2) = Suc (bitlen (n div 2) - 1)"
      by simp
    have bl: "bitlen n = Suc (bitlen (n div 2))"
      using "1.prems" by (subst bitlen.simps) simp
    have "2 ^ bitlen (n div 2) \<le> n"
    proof -
      have "(2::int) ^ bitlen (n div 2) = 2 * 2 ^ (bitlen (n div 2) - 1)"
        by (subst b) simp
      also have "\<dots> \<le> 2 * (n div 2)" using ih(1) by simp
      also have "\<dots> \<le> n" by simp
      finally show ?thesis .
    qed
    moreover have "n < 2 * 2 ^ bitlen (n div 2)"
      using ih(2) by linarith
    ultimately show ?thesis by (simp add: bl)
  qed
qed

lemma round53_error:
  assumes "0 \<le> P"
  shows "\<bar>round53 P - P\<bar> * 2 ^ 53 \<le> P"
proof (cases "bitlen P \<le> 53")
  case True
  with assms show ?thesis by (simp add: round53_def)
next
  case False
  define s where "s = bitlen P - 53"
  define m where "m = P div 2 ^ s"
  define r where "r = P mod 2 ^ s"
  define h :: int where "h = 2 ^ (s - 1)"
  from False have s: "0 < s" and bl: "bitlen P = s + 53" by (simp_all add: s_def)
  from False have "0 < P" using assms by (cases "P = 0") (simp_all add: bitlen.simps)
  from bitlen_bounds [OF this] have low: "2 ^ (s + 52) \<le> P" by (simp add: bl add.commute)
  have hh: "2 ^ s = 2 * h" using s by (cases s) (simp_all add: h_def)
  have P: "P = m * (2 * h) + r" by (simp only: m_def r_def div_mult_mod_eq hh [symmetric])
  have r: "0 \<le> r" "r < 2 * h" by (simp_all add: r_def hh [symmetric])
  have "round53 P = (if h < r \<or> (r = h \<and> odd m) then m + 1 else m) * 2 ^ s"
    using False by (simp add: round53_def Let_def s_def [symmetric] m_def r_def h_def)
  then have R: "round53 P = (if h < r \<or> (r = h \<and> odd m) then m + 1 else m) * (2 * h)"
    by (simp only: hh)
  define a where "a = m * (2 * h)"
  have Pa: "P = a + r" using P by (simp add: a_def)
  have Ra: "round53 P = (if h < r \<or> (r = h \<and> odd m) then a + 2 * h else a)"
    unfolding R by (simp add: a_def algebra_simps)
  have err: "\<bar>round53 P - P\<bar> \<le> h"
    using Pa Ra r by (auto split: if_splits)
  have "h * 2 ^ 53 = 2 ^ (s + 52)"
  proof -
    have "h * 2 ^ 53 = (2 * h) * 2 ^ 52" by simp
    also have "\<dots> = 2 ^ (s + 52)" by (simp add: hh [symmetric] power_add)
    finally show ?thesis .
  qed
  with low have "h * 2 ^ 53 \<le> P" by simp
  moreover from err have "\<bar>round53 P - P\<bar> * 2 ^ 53 \<le> h * 2 ^ 53" by simp
  ultimately show ?thesis by linarith
qed

lemma round53_int_bounds:
  fixes n :: nat
  defines "R \<equiv> round53 (int n * 3152519739159347)"
  shows "R * 9007199254740992 \<le> int n * 28395373445112339944606040011571"
    and "int n * 28395373445112333639566561692877 \<le> R * 9007199254740992"
proof -
  define d where "d = R - int n * 3152519739159347"
  have "\<bar>R - int n * 3152519739159347\<bar> * 2 ^ 53 \<le> int n * 3152519739159347"
    unfolding R_def by (rule round53_error) simp
  then have "\<bar>d\<bar> * 9007199254740992 \<le> int n * 3152519739159347"
    by (simp add: d_def)
  then have d: "d * 9007199254740992 \<le> int n * 3152519739159347"
    "- (int n * 3152519739159347) \<le> d * 9007199254740992"
    by linarith+
  have R: "R * 9007199254740992 = d * 9007199254740992 + int n * 28395373445112336792086300852224"
    by (simp add: d_def algebra_simps)
  from d show "R * 9007199254740992 \<le> int n * 28395373445112339944606040011571"
    and "int n * 28395373445112333639566561692877 \<le> R * 9007199254740992"
    unfolding R by linarith+
qed

lemma train_size_of_less: "0 < n \<Longrightarrow> train_size_of n < n"
proof -
  assume n: "0 < n"
  define R where "R = round53 (int n * 3152519739159347)"
  from round53_int_bounds [of n] have
    "R * 9007199254740992 \<le> int n * 28395373445112339944606040011571"
    by (simp add: R_def)
  with n have "R < int n * 4503599627370496" by linarith
  then have "R div 4503599627370496 < int n" by linarith
  then show ?thesis using n by (simp add: train_size_of_def R_def)
qed

lemma train_size_of_pos: "2 \<le> n \<Longrightarrow> 0 < train_size_of n"
proof -
  assume n: "2 \<le> n"
  define R where "R = round53 (int n * 3152519739159347)"
  from round53_int_bounds [of n] have
    "int n * 28395373445112333639566561692877 \<le> R * 9007199254740992"
    by (simp add: R_def)
  with n have "4503599627370496 \<le> R" by linarith
  then have "1 \<le> R div 4503599627370496" by linarith
  then show ?thesis by (simp add: train_size_of_def R_def)
qed

lemma train_size_of_floor:
  assumes "n < 2 ^ 49"
  shows "7 * n div 10 - 1 \<le> train_size_of n \<and> train_size_of n \<le> 7 * n div 10
    \<and> (\<not> 10 dvd n \<longrightarrow> train_size_of n = 7 * n div 10)"
proof -
  define R where "R = round53 (int n * 3152519739159347)"
  define j where "j = 7 * int n div 10"
  from assms have n: "int n < 562949953421312" by simp
  from round53_int_bounds [of n] have
    up: "R * 9007199254740992 \<le> int n * 28395373445112339944606040011571" and
    lo: "int n * 28395373445112333639566561692877 \<le> R * 9007199254740992"
    by (simp_all add: R_def)
  have j: "10 * j \<le> 7 * int n" "7 * int n < 10 * j + 10" by (simp_all add: j_def)
  have "R < j * 4503599627370496 + 4503599627370496" using up j n by linarith
  then have T_up: "R div 4503599627370496 \<le> j" by linarith
  have "j * 4503599627370496 - 4503599627370496 \<le> R" using lo j n by linarith
  then have T_lo: "j - 1 \<le> R div 4503599627370496" by linarith
  have T_eq: "j \<le> R div 4503599627370496" if "\<not> 10 dvd n"
  proof -
    from that have "\<not> 10 dvd 7 * int n" by presburger
    then have "10 * j \<noteq> 7 * int n" by (metis dvd_triv_left)
    with j have "10 * j + 1 \<le> 7 * int n" by linarith
    then have "j * 4503599627370496 \<le> R" using lo n by linarith
    then show ?thesis by linarith
  qed
  have T: "train_size_of n = nat (R div 4503599627370496)"
    by (simp add: train_size_of_def R_def)
  have jn: "7 * n div 10 = nat j" by (simp add: j_def nat_div_distrib nat_mult_distrib)
  from T_up T_lo T_eq show ?thesis unfolding T jn by auto
qed

lemma floor_07: "nat \<lfloor>0.7 * real n\<rfloor> = 7 * n div 10"
proof -
  have "0.7 * real n = real_of_int (7 * int n) / real_of_int 10" by simp
  also have "\<lfloor>\<dots>\<rfloor> = 7 * int n div 10" by (rule floor_divide_of_int_eq)
  finally show ?thesis by (simp add: nat_div_distrib nat_mult_distrib)
qed

lemma train_size_of_le: "train_size_of n \<le> n"
proof (cases "n = 0")
  case True
  then show ?thesis by (simp add: train_size_of_def round53_def bitlen.simps)
next
  case False
  with train_size_of_less [of n] show ?thesis by simp
qed

text \<open>
  Claim C7, amended. For a dataset of \<open>n\<close> elements and a permutation drawn by
  \<^verbatim>\<open>random_split\<close>, the training set has exactly \<^verbatim>\<open>int(n * 0.7)\<close> elements as doubles
  compute it and the test set the remaining ones; the sizes sum to \<open>n\<close> and every index
  of the dataset is in exactly one of the two subsets, once. Below \<open>2^49\<close> elements
  \<^verbatim>\<open>int(n * 0.7)\<close> is \<open>floor(0.7 * n)\<close> or one less, and it is \<open>floor(0.7 * n)\<close> whenever
  \<open>n\<close> is not a multiple of 10.
\<close>

theorem split_partitions:
  assumes "is_permutation (randperm env 0 n) n"
  shows "\<exists>trainset testset.
      random_split env n (train_size_of n, n - train_size_of n) = Inr (trainset, testset)
      \<and> length trainset = train_size_of n
      \<and> length testset = n - train_size_of n
      \<and> length trainset + length testset = n
      \<and> distinct (trainset @ testset)
      \<and> set trainset \<union> set testset = {..<n}
      \<and> set trainset \<inter> set testset = {}
      \<and> (n < 2 ^ 49 \<longrightarrow>
            nat \<lfloor>0.7 * real n\<rfloor> - 1 \<le> train_size_of n
            \<and> train_size_of n \<le> nat \<lfloor>0.7 * real n\<rfloor>
            \<and> (\<not> 10 dvd n \<longrightarrow> train_size_of n = nat \<lfloor>0.7 * real n\<rfloor>))"
proof -
  define p where "p = randperm env 0 n"
  define a where "a = train_size_of n"
  from assms have d: "distinct p" and s: "set p = {..<n}"
    by (simp_all add: is_permutation_def p_def)
  from d s have len: "length p = n"
    using distinct_card [of p] by simp
  have a: "a \<le> n" unfolding a_def by (rule train_size_of_le)
  have split: "take a p @ take (n - a) (drop a p) = p"
    using len by simp
  have rs: "random_split env n (a, n - a) = Inr (take a p, take (n - a) (drop a p))"
    using a by (simp add: random_split_def p_def Let_def)
  have dist: "distinct (take a p @ take (n - a) (drop a p))"
    unfolding split by (rule d)
  have un: "set (take a p) \<union> set (take (n - a) (drop a p)) = {..<n}"
    using arg_cong [OF split, of set] s by simp
  from dist have disj: "set (take a p) \<inter> set (take (n - a) (drop a p)) = {}"
    by simp
  have fl: "n < 2 ^ 49 \<longrightarrow>
            nat \<lfloor>0.7 * real n\<rfloor> - 1 \<le> a \<and> a \<le> nat \<lfloor>0.7 * real n\<rfloor>
            \<and> (\<not> 10 dvd n \<longrightarrow> a = nat \<lfloor>0.7 * real n\<rfloor>)"
    unfolding floor_07 a_def using train_size_of_floor [of n] by blast
  show ?thesis
    unfolding a_def [symmetric]
    apply (rule exI [of _ "take a p"])
    apply (rule exI [of _ "take (n - a) (drop a p)"])
    using rs dist un disj fl a len by simp
qed

theorem split_partitions_witness:
  "is_permutation (randperm two_samples 0 90) 90
   \<and> random_split two_samples 90 (train_size_of 90, 90 - train_size_of 90)
       = Inr ([0..<62], [62..<90])
   \<and> train_size_of 90 = nat \<lfloor>0.7 * real 90\<rfloor> - 1
   \<and> train_size_of 7 = nat \<lfloor>0.7 * real 7\<rfloor>"
proof -
  have p: "is_permutation (randperm two_samples 0 90) 90"
    by (simp add: is_permutation_def two_samples_def fixture_env_def lessThan_atLeast0)
  have t: "train_size_of 90 = 62" "train_size_of 7 = 4"
    by (simp_all add: train_size_of_def round53_def bitlen.simps)
  have f: "nat \<lfloor>0.7 * real 90\<rfloor> = 63" "nat \<lfloor>0.7 * real 7\<rfloor> = 4"
    by simp_all
  from split_partitions [OF p] obtain trainset testset where
    "random_split two_samples 90 (train_size_of 90, 90 - train_size_of 90) = Inr (trainset, testset)"
    "length trainset = train_size_of 90"
    by blast
  moreover have "random_split two_samples 90 (62, 28) = Inr ([0..<62], [62..<90])"
    by (simp add: random_split_def two_samples_def fixture_env_def)
  ultimately show ?thesis using p t f by simp
qed

text \<open>Claim C7 as stated fails for 90 elements: \<^verbatim>\<open>90 * 0.7\<close> is the double
  62.99999999999999, so 62 elements are trained on and 28 tested, while
  \<open>floor(0.7 * 90) = 63\<close>.\<close>

theorem train_size_below_floor:
  "train_size_of 90 = 62 \<and> nat \<lfloor>0.7 * real 90\<rfloor> = 63
   \<and> random_split two_samples 90 (train_size_of 90, 90 - train_size_of 90)
       = Inr ([0..<62], [62..<90])
   \<and> length [0..<62] = 62 \<and> length [62..<90] = 28"
  by (simp add: train_size_of_def round53_def bitlen.simps random_split_def two_samples_def
      fixture_env_def)

subsection \<open>The loaded dataset\<close>

lemma index_rows_Inr:
  "index_rows a idx = Inr rows \<Longrightarrow> list_all (\<lambda>i. 0 \<le> i) idx \<Longrightarrow>
   rows = map (\<lambda>i. a ! nat i) idx \<and> list_all (\<lambda>i. nat i < length a) idx"
proof (induction idx arbitrary: rows)
  case Nil
  then show ?case by simp
next
  case (Cons i idx)
  from Cons.prems obtain rest where
    "index_rows a idx = Inr rest" "rows = a ! nat i # rest" "nat i < length a"
    by (auto simp: Let_def split: if_splits sum.splits)
  with Cons.IH [of rest] Cons.prems(2) show ?case by simp
qed

lemma load_dataset_plain:
  assumes "np_load env (data_path env name) = Inr (latents, target_coord)"
  shows "load_dataset env name False =
      (if \<not> list_all (\<lambda>r. r \<noteq> []) latents then Inl IndexError
       else if length latents \<noteq> length target_coord then Inl AssertionError
       else Inr (zip (map hd latents) target_coord))"
  using assms by (simp add: load_dataset_def first_slice_def TensorDataset_def)

lemma load_dataset_debug:
  assumes np: "np_load env (data_path env name) = Inr (latents, target_coord)"
    and draws: "list_all (\<lambda>i. 0 \<le> i)
        (random_integers env 0 (int (length latents)) 10)"
    and ld: "load_dataset env name True = Inr ds"
  shows "list_all (\<lambda>r. r \<noteq> []) latents
    \<and> list_all (\<lambda>i. nat i < length latents \<and> nat i < length target_coord)
        (random_integers env 0 (int (length latents)) 10)
    \<and> ds = map (\<lambda>i. (hd (latents ! nat i), target_coord ! nat i))
        (random_integers env 0 (int (length latents)) 10)"
proof -
  define idx where "idx = random_integers env 0 (int (length latents)) 10"
  from np ld have ne: "list_all (\<lambda>r. r \<noteq> []) latents"
    by (auto simp: load_dataset_def first_slice_def split: if_splits)
  with np ld obtain ls ts where
    l: "index_rows (map hd latents) idx = Inr ls" and
    t: "index_rows target_coord idx = Inr ts" and
    z: "ds = zip ls ts"
    by (auto simp: load_dataset_def first_slice_def TensorDataset_def Let_def idx_def
        split: sum.splits if_splits)
  from draws have nn: "list_all (\<lambda>i. 0 \<le> i) idx" by (simp add: idx_def)
  from index_rows_Inr [OF l nn] have
    ls: "ls = map (\<lambda>i. map hd latents ! nat i) idx" and
    li: "list_all (\<lambda>i. nat i < length latents) idx"
    by simp_all
  from index_rows_Inr [OF t nn] have
    ts: "ts = map (\<lambda>i. target_coord ! nat i) idx" and
    ti: "list_all (\<lambda>i. nat i < length target_coord) idx"
    by simp_all
  from li have ls': "ls = map (\<lambda>i. hd (latents ! nat i)) idx"
    unfolding ls by (auto simp: list_all_iff)
  have "ds = map (\<lambda>i. (hd (latents ! nat i), target_coord ! nat i)) idx"
    unfolding z ls' ts by (simp add: zip_map_map zip_same_conv_map)
  with ne li ti show ?thesis
    unfolding idx_def [symmetric] by (auto simp: list_all_iff)
qed

text \<open>
  Claim C6, amended. With the stored arrays \<open>latents\<close> and \<open>target_coord\<close>:
  without \<^verbatim>\<open>--debug\<close>, \<open>load_dataset\<close> fails only when the middle axis is empty
  (IndexError) or the two arrays differ in their number of rows (the assertion of
  \<^verbatim>\<open>TensorDataset\<close>), and otherwise returns the pairs of \<open>latents[i, 0, :]\<close> and
  \<open>target_coord[i]\<close>, in order; in both modes every element returned is such a pair for
  some row \<open>j\<close>. So the elements have the sizes of the stored rows: latents of the policy's
  input size and 3D targets exactly when the file holds them. No size is checked.
\<close>

theorem load_dataset_elements:
  assumes np: "np_load env (data_path env name) = Inr (latents, target_coord)"
    and draws: "list_all (\<lambda>i. 0 \<le> i) (random_integers env 0 (int (length latents)) 10)"
  shows "load_dataset env name False =
      (if \<not> list_all (\<lambda>r. r \<noteq> []) latents then Inl IndexError
       else if length latents \<noteq> length target_coord then Inl AssertionError
       else Inr (zip (map hd latents) target_coord))
    \<and> (\<forall>ds. load_dataset env name dbg = Inr ds \<longrightarrow>
         (\<forall>e\<in>set ds. \<exists>j. j < length latents \<and> j < length target_coord \<and> latents ! j \<noteq> []
            \<and> e = (hd (latents ! j), target_coord ! j)))
    \<and> (\<forall>ds d c. load_dataset env name dbg = Inr ds \<longrightarrow>
         list_all (list_all (\<lambda>v. length v = d)) latents \<longrightarrow>
         list_all (\<lambda>t. length t = c) target_coord \<longrightarrow>
         list_all (\<lambda>(x, y). length x = d \<and> length y = c) ds)"
proof -
  note plain = load_dataset_plain [OF np]
  have rows: "\<exists>j. j < length latents \<and> j < length target_coord \<and> latents ! j \<noteq> []
            \<and> e = (hd (latents ! j), target_coord ! j)"
    if ld: "load_dataset env name dbg = Inr ds" and e: "e \<in> set ds" for ds e
  proof (cases dbg)
    case True
    from ld True have "load_dataset env name True = Inr ds" by simp
    from load_dataset_debug [OF np draws this] e
    obtain i where "nat i < length latents" "nat i < length target_coord"
      "list_all (\<lambda>r. r \<noteq> []) latents" "e = (hd (latents ! nat i), target_coord ! nat i)"
      by (auto simp: list_all_iff)
    then show ?thesis by (auto simp: list_all_iff)
  next
    case False
    with ld plain have ne: "list_all (\<lambda>r. r \<noteq> []) latents"
      and len: "length latents = length target_coord"
      and ds: "ds = zip (map hd latents) target_coord"
      by (auto split: if_splits)
    from e obtain j where "j < length latents" "e = (map hd latents ! j, target_coord ! j)"
      unfolding ds using len by (auto simp: in_set_zip)
    with ne len show ?thesis by (auto simp: list_all_iff)
  qed
  have shapes: "list_all (\<lambda>(x, y). length x = d \<and> length y = c) ds"
    if ld: "load_dataset env name dbg = Inr ds"
      and l: "list_all (list_all (\<lambda>v. length v = d)) latents"
      and t: "list_all (\<lambda>t. length t = c) target_coord" for ds d c
  proof -
    have "length (fst e) = d \<and> length (snd e) = c" if "e \<in> set ds" for e
    proof -
      from rows [OF ld that] obtain j where j: "j < length latents" "j < length target_coord"
        "latents ! j \<noteq> []" "e = (hd (latents ! j), target_coord ! j)" by blast
      from l j(1) have "list_all (\<lambda>v. length v = d) (latents ! j)"
        by (simp add: list_all_length)
      with j(3) have "length (hd (latents ! j)) = d"
        by (cases "latents ! j") simp_all
      moreover from t j(2) have "length (target_coord ! j) = c"
        by (simp add: list_all_length)
      ultimately show ?thesis by (simp add: j(4))
    qed
    then show ?thesis by (auto simp: list_all_iff)
  qed
  from plain rows shapes show ?thesis by blast
qed

theorem load_dataset_elements_witness:
  "np_load two_samples (data_path two_samples ''rgb_model_v1'')
     = Inr ([[[Fin 1, Fin 2]], [[Fin 3, Fin 4]]], [[Fin 0, Fin 0, Fin 1], [Fin 12, Fin 1, Fin 0]])
   \<and> list_all (\<lambda>i. 0 \<le> i) (random_integers two_samples 0 2 10)
   \<and> load_dataset two_samples ''rgb_model_v1'' False = Inr two_samples_dataset
   \<and> list_all (\<lambda>(x, y). length x = 2 \<and> length y = 3) two_samples_dataset"
proof -
  have np: "np_load two_samples (data_path two_samples ''rgb_model_v1'')
     = Inr ([[[Fin 1, Fin 2]], [[Fin 3, Fin 4]]], [[Fin 0, Fin 0, Fin 1], [Fin 12, Fin 1, Fin 0]])"
    by (simp add: two_samples_def fixture_env_def)
  have draws: "list_all (\<lambda>i. 0 \<le> i)
      (random_integers two_samples 0 (int (length [[[Fin 1, Fin 2]], [[Fin 3, Fin 4]]])) 10)"
    by (simp add: two_samples_def fixture_env_def)
  note t = load_dataset_elements [OF np draws, of False]
  from t have ld: "load_dataset two_samples ''rgb_model_v1'' False = Inr two_samples_dataset"
    by (simp add: two_samples_dataset_def)
  from t [THEN conjunct2, THEN conjunct2, rule_format, OF ld, of 2 3]
  have "list_all (\<lambda>(x, y). length x = 2 \<and> length y = 3) two_samples_dataset"
    by simp
  with np draws ld show ?thesis by simp
qed

text \<open>Claim C6 as stated fails when the file was written for another latent size: with the
  default \<^verbatim>\<open>--g-latent 10\<close> a file of 2-dimensional latents is loaded as it is.\<close>

theorem latent_size_not_checked:
  "load_dataset two_samples (g_name default_args) (debug default_args)
     = Inr [([Fin 1, Fin 2], [Fin 0, Fin 0, Fin 1]), ([Fin 3, Fin 4], [Fin 12, Fin 1, Fin 0])]
   \<and> length [Fin 1, Fin 2] = 2
   \<and> g_latent default_args = 10"
  by (simp add: run_defs)

subsection \<open>The loss\<close>




text \<open>The stand-in for \<^verbatim>\<open>F.mse_loss\<close> is exact on arrays of one shape.\<close>

lemma map2_nth:
  "length xs = length ys \<Longrightarrow> map2 f xs ys = map (\<lambda>i. f (xs ! i) (ys ! i)) [0..<length xs]"
  by (intro nth_equalityI) simp_all

lemma broadcast_rows:
  "map length x = map length y \<Longrightarrow>
   map (\<lambda>(r, s). broadcast r s) (zip x y) = map (\<lambda>(r, s). Some (zip r s)) (zip x y)"
proof (induction x arbitrary: y)
  case Nil
  then show ?case by simp
next
  case (Cons r x)
  then obtain s y' where y: "y = s # y'" "length r = length s" "map length x = map length y'"
    by (cases y) auto
  with Cons.IH [of y'] show ?case by (simp add: broadcast_def)
qed

lemma torch_mse_loss_same_shape:
  assumes sh: "map length x = map length y"
  shows "torch_mse_loss x y = Inr (mean_squared_error x y)"
proof -
  from sh have len: "length x = length y" by (rule map_eq_imp_length_eq)
  have row: "length (x ! i) = length (y ! i)" if "i < length x" for i
  proof -
    from that len have "length (x ! i) = map length x ! i" "length (y ! i) = map length y ! i"
      by simp_all
    with sh show ?thesis by simp
  qed
  have cells: "map (\<lambda>(r, s). broadcast r s) (zip x y) = map (\<lambda>(r, s). Some (zip r s)) (zip x y)"
    using sh by (rule broadcast_rows)
  have "map (\<lambda>(a, b). squared_error a b) (concat (map the (map (\<lambda>(r, s). Some (zip r s)) (zip x y))))
      = concat (map2 (\<lambda>r s. map2 squared_error r s) x y)"
    by (simp add: map_concat comp_def case_prod_unfold)
  also have "map2 (\<lambda>r s. map2 squared_error r s) x y
      = map (\<lambda>i. map2 squared_error (x ! i) (y ! i)) [0..<length x]"
    using len by (rule map2_nth)
  also have "\<dots> = map (\<lambda>i. map (\<lambda>c. squared_error (x ! i ! c) (y ! i ! c)) [0..<length (x ! i)])
                      [0..<length x]"
    by (rule map_cong) (simp_all add: map2_nth row)
  finally have errors:
    "map (\<lambda>(a, b). squared_error a b) (concat (map the (map (\<lambda>(r, s). Some (zip r s)) (zip x y))))
      = concat (map (\<lambda>i. map (\<lambda>c. squared_error (x ! i ! c) (y ! i ! c)) [0..<length (x ! i)])
                  [0..<length x])" .
  have ok: "list_all (\<lambda>c. c \<noteq> None) (map (\<lambda>(r, s). Some (zip r s)) (zip x y))"
    by (simp add: list_all_iff case_prod_unfold)
  have rows: "broadcast x y = Some (zip x y)" using len by (simp add: broadcast_def)
  show ?thesis
    by (simp only: torch_mse_loss_def mean_squared_error_def rows option.case Let_def cells ok
        if_True errors)
qed




subsection \<open>Completing the run\<close>

lemma chunks_nonempty:
  "0 < k \<Longrightarrow> (chunks k xs = []) = (xs = [])"
  by (cases xs) simp_all

lemma chunks_parts:
  "0 < k \<Longrightarrow> b \<in> set (chunks k xs) \<Longrightarrow> b \<noteq> [] \<and> set b \<subseteq> set xs"
proof (induction k xs rule: chunks.induct)
  case (1 k)
  then show ?case by simp
next
  case (2 k x xs)
  from "2.prems" have "b = take k (x # xs) \<or> b \<in> set (chunks k (drop k (x # xs)))"
    by simp
  then show ?case
  proof
    assume "b = take k (x # xs)"
    with "2.prems"(1) show ?thesis
      by (cases k) (auto dest: in_set_takeD)
  next
    assume "b \<in> set (chunks k (drop k (x # xs)))"
    with "2.IH" "2.prems"(1) have "b \<noteq> []" "set b \<subseteq> set (drop k (x # xs))"
      by simp_all
    moreover have "set (drop k (x # xs)) \<subseteq> set (x # xs)" by (rule set_drop_subset)
    ultimately show ?thesis by blast
  qed
qed

lemma items_at_Inr:
  assumes "set idx \<subseteq> {..<length xs}"
  shows "items_at xs idx = Inr (map (\<lambda>i. xs ! i) idx)"
proof -
  from assms have "list_all (\<lambda>i. i < length xs) idx"
    unfolding list_all_iff by blast
  then show ?thesis by (simp add: items_at_def)
qed


lemma iter_loader_ok:
  assumes perm: "is_permutation (randperm env k (length (subset l))) (length (subset l))"
    and sub: "set (subset l) \<subseteq> {..<length dataset}"
    and ne: "subset l \<noteq> []"
    and bs: "0 < batch l"
    and tg: "list_all (\<lambda>(x, y). int (length x) = d \<and> list_all is_finite x \<and> length y = 3) dataset"
  shows "\<exists>batches. iter_loader env dataset l k = Inr batches \<and> batches \<noteq> []
    \<and> list_all (good_batch d) batches"
proof -
  define order where "order = (if shuffled l then randperm env k (length (subset l))
                   else [0..<length (subset l)])"
  have os: "set order = {..<length (subset l)}"
  proof (cases "shuffled l")
    case True
    with perm show ?thesis by (simp add: order_def is_permutation_def)
  next
    case False
    then show ?thesis by (simp add: order_def lessThan_atLeast0)
  qed
  from ne have "0 \<in> {..<length (subset l)}" by simp
  with os have one: "order \<noteq> []" by (metis empty_iff empty_set)
  define idx where "idx = map (\<lambda>i. subset l ! i) order"
  have i1: "items_at (subset l) order = Inr idx"
    unfolding idx_def by (rule items_at_Inr) (simp add: os)
  have ids: "set idx \<subseteq> {..<length dataset}"
  proof
    fix x assume "x \<in> set idx"
    then obtain i where "i \<in> set order" "x = subset l ! i" by (auto simp: idx_def)
    with os have "x \<in> set (subset l)" by simp
    with sub show "x \<in> {..<length dataset}" by blast
  qed
  define items where "items = map (\<lambda>i. dataset ! i) idx"
  have i2: "items_at dataset idx = Inr items"
    unfolding items_def by (rule items_at_Inr) (rule ids)
  have ine: "items \<noteq> []" using one by (simp add: items_def idx_def)
  have iss: "set items \<subseteq> set dataset"
  proof
    fix x assume "x \<in> set items"
    then obtain i where "i \<in> set idx" "x = dataset ! i" by (auto simp: items_def)
    with ids show "x \<in> set dataset" by (simp add: subset_iff)
  qed
  define batches where "batches = map (\<lambda>b. (map fst b, map snd b)) (chunks (batch l) items)"
  have it: "iter_loader env dataset l k = Inr batches"
    by (simp add: iter_loader_def Let_def order_def [symmetric] i1 i2 batches_def)
  have bne: "batches \<noteq> []"
    using ine bs by (simp add: batches_def chunks_nonempty)
  have "good_batch d (map fst b, map snd b)" if "b \<in> set (chunks (batch l) items)" for b
  proof -
    from chunks_parts [OF bs that] iss have b: "b \<noteq> []" "set b \<subseteq> set dataset" by auto
    have "int (length (fst e)) = d \<and> list_all is_finite (fst e) \<and> length (snd e) = 3"
      if "e \<in> set b" for e
    proof -
      from that b(2) have "e \<in> set dataset" by blast
      with tg show ?thesis by (auto simp: list_all_iff)
    qed
    with b(1) show ?thesis by (simp add: good_batch_def finite_rows_def list_all_iff)
  qed
  then have "list_all (good_batch d) batches"
    by (auto simp: batches_def list_all_iff)
  with it bne show ?thesis by blast
qed

lemma forward_ok:
  assumes mo: "models_ok env vae a" and gb: "good_batch (g_latent a) (l, t)"
  shows "\<exists>loss pose lat2. forward env vae m p l t = Inr (loss, pose, lat2)
    \<and> pose \<noteq> [] \<and> list_all (\<lambda>r. length r = 3) pose
    \<and> lat2 \<noteq> [] \<and> finite_rows (latent_dim a) lat2"
proof -
  from gb have l: "l \<noteq> []" and lw: "finite_rows (g_latent a) l"
    and tl: "length t = length l" and t3: "list_all (\<lambda>r. length r = 3) t"
    by (simp_all add: good_batch_def)
  from mo lw obtain lat2 where
    1: "policy_forward env m p l = Inr lat2" "length lat2 = length l"
       "finite_rows (latent_dim a) lat2"
    unfolding models_ok_def by blast
  from 1(3) have lw2: "list_all (\<lambda>r. int (length r) = latent_dim a) lat2"
    by (simp add: finite_rows_def list_all_iff)
  from mo lw2 obtain d tr where
    2: "traj_decoder env vae lat2 = Inr d" and
    3: "to_trajectory env vae d = Inr tr" "length tr = length lat2"
       "list_all (\<lambda>t. int (length t) = num_joints a \<and> list_all (\<lambda>r. r \<noteq> []) t) tr"
    unfolding models_ok_def by blast
  from 3(3) have ne: "list_all (list_all (\<lambda>r. r \<noteq> [])) tr"
    and jw: "list_all (\<lambda>r. int (length r) = num_joints a) (unnormalize env (map (map last) tr))"
    by (simp_all add: list_all_iff unnormalize_def)
  have 4: "last_pose tr = Inr (map (map last) tr)"
    using ne by (simp add: last_pose_def)
  from mo jw obtain pose where
    5: "end_effector_pose env (unnormalize env (map (map last) tr)) = Inr pose"
       "length pose = length (unnormalize env (map (map last) tr))"
       "list_all (\<lambda>r. length r = 3) pose"
    unfolding models_ok_def by blast
  have pl: "length pose = length l"
    using 5(2) 3(2) 1(2) by (simp add: unnormalize_def)
  with tl have "length pose = length t" by simp
  with mo 5(3) t3 obtain loss where 6: "mse_loss env pose t = Inr loss"
    unfolding models_ok_def by blast
  have "forward env vae m p l t = Inr (loss, pose, lat2)"
    by (simp add: forward_def 1(1) 2 3(1) 4 5(1) 6)
  moreover from pl l have "pose \<noteq> []" by auto
  moreover from 1(2) l have "lat2 \<noteq> []" by auto
  ultimately show ?thesis using 5(3) 1(3) by blast
qed

lemma wide_rows_concat:
  assumes "wide_rows c arrays" "arrays \<noteq> []"
  shows "concat arrays \<noteq> [] \<and> list_all (\<lambda>r. c \<le> length r) (concat arrays)"
  using assms by (cases arrays) (auto simp: wide_rows_def list_all_iff)

lemma finite_arrays_concat:
  assumes "finite_arrays d arrays" "arrays \<noteq> []"
  shows "concat arrays \<noteq> [] \<and> finite_rows d (concat arrays)"
  using assms by (cases arrays) (auto simp: finite_arrays_def finite_rows_def list_all_iff)

lemma train_batches_ok:
  assumes mo: "models_ok env vae a"
    and gb: "list_all (good_batch (g_latent a)) bs"
    and w: "wide_rows 3 eps" "wide_rows 3 tps" "finite_arrays (latent_dim a) lats"
  shows "\<exists>p' ls' eps' tps' lats'.
      train_batches env vae bs (p, ls, eps, tps, lats) = Inr (p', ls', eps', tps', lats')
      \<and> wide_rows 3 eps' \<and> wide_rows 3 tps' \<and> finite_arrays (latent_dim a) lats'
      \<and> length eps' = length eps + length bs \<and> length tps' = length tps + length bs
      \<and> length lats' = length lats + length bs"
  using gb w
proof (induction bs arbitrary: p ls eps tps lats)
  case Nil
  then show ?case by simp
next
  case (Cons b bs)
  obtain l t where b: "b = (l, t)" by (cases b)
  from Cons.prems(1) have g: "good_batch (g_latent a) (l, t)"
    and gs: "list_all (good_batch (g_latent a)) bs"
    by (simp_all add: b)
  from forward_ok [OF mo g, of True p] obtain loss pose lat2 where
    fw: "forward env vae True p l t = Inr (loss, pose, lat2)" and
    po: "pose \<noteq> []" "list_all (\<lambda>r. length r = 3) pose" and
    la: "lat2 \<noteq> []" "finite_rows (latent_dim a) lat2"
    by blast
  have w1: "wide_rows 3 (eps @ [pose])"
    using Cons.prems(2) po by (auto simp: wide_rows_def list_all_iff)
  have w2: "wide_rows 3 (tps @ [t])"
    using Cons.prems(3) g by (auto simp: wide_rows_def good_batch_def list_all_iff)
  have w3: "finite_arrays (latent_dim a) (lats @ [lat2])"
    using Cons.prems(4) la by (auto simp: finite_arrays_def)
  from Cons.IH [OF gs w1 w2 w3, of "optimizer_step env p loss" "ls @ [item env loss]"]
  show ?case by (auto simp: b fw)
qed

lemma val_batches_ok:
  assumes mo: "models_ok env vae a"
    and gb: "list_all (good_batch (g_latent a)) bs"
    and w: "wide_rows 3 eps" "wide_rows 3 tps" "finite_arrays (latent_dim a) lats"
  shows "\<exists>ls' eps' tps' lats'.
      val_batches env vae p bs (ls, eps, tps, lats) = Inr (ls', eps', tps', lats')
      \<and> wide_rows 3 eps' \<and> wide_rows 3 tps' \<and> finite_arrays (latent_dim a) lats'
      \<and> length eps' = length eps + 2 * length bs \<and> length tps' = length tps + length bs
      \<and> length lats' = length lats + length bs"
  using gb w
proof (induction bs arbitrary: ls eps tps lats)
  case Nil
  then show ?case by simp
next
  case (Cons b bs)
  obtain l t where b: "b = (l, t)" by (cases b)
  from Cons.prems(1) have g: "good_batch (g_latent a) (l, t)"
    and gs: "list_all (good_batch (g_latent a)) bs"
    by (simp_all add: b)
  from forward_ok [OF mo g, of False p] obtain loss pose lat2 where
    fw: "forward env vae False p l t = Inr (loss, pose, lat2)" and
    po: "pose \<noteq> []" "list_all (\<lambda>r. length r = 3) pose" and
    la: "lat2 \<noteq> []" "finite_rows (latent_dim a) lat2"
    by blast
  have w1: "wide_rows 3 ((eps @ [pose]) @ [pose])"
    using Cons.prems(2) po by (auto simp: wide_rows_def list_all_iff)
  have w2: "wide_rows 3 (tps @ [t])"
    using Cons.prems(3) g by (auto simp: wide_rows_def good_batch_def list_all_iff)
  have w3: "finite_arrays (latent_dim a) (lats @ [lat2])"
    using Cons.prems(4) la by (auto simp: finite_arrays_def)
  from Cons.IH [OF gs w1 w2 w3, of "ls @ [item env loss]"]
  show ?case by (auto simp: b fw)
qed

lemma wide_rows_concat3:
  assumes "wide_rows 3 arrays" "arrays \<noteq> []"
  shows "list_all (\<lambda>r. 0 < length r \<and> 1 < length r) (concat arrays)"
proof -
  from wide_rows_concat [OF assms] have "list_all (\<lambda>r. 3 \<le> length r) (concat arrays)"
    by simp
  then show ?thesis unfolding list_all_iff by fastforce
qed

lemma training_ok:
  assumes mo: "models_ok env vae a"
    and it: "iter_loader env dataset trl (Suc e) = Inr batches"
    and ne: "batches \<noteq> []" and gb: "list_all (good_batch (g_latent a)) batches"
  shows "\<exists>pol' avg tp tt lats. training env vae dataset trl e pol = Inr (pol', avg, tp, tt, lats)
    \<and> list_all (\<lambda>r. 0 < length r \<and> 1 < length r) tp
    \<and> list_all (\<lambda>r. 0 < length r \<and> 1 < length r) tt
    \<and> finite_arrays (latent_dim a) lats"
proof -
  have w: "wide_rows 3 []" "finite_arrays (latent_dim a) []"
    by (simp_all add: wide_rows_def finite_arrays_def)
  from train_batches_ok [OF mo gb w(1) w(1) w(2), of pol "[]"]
  obtain p' ls' eps' tps' lats' where
    tb: "train_batches env vae batches (pol, [], [], [], []) = Inr (p', ls', eps', tps', lats')" and
    w': "wide_rows 3 eps'" "wide_rows 3 tps'" "finite_arrays (latent_dim a) lats'" and
    len: "length eps' = length batches" "length tps' = length batches"
    by auto
  from len ne have n: "eps' \<noteq> []" "tps' \<noteq> []" by auto
  have "training env vae dataset trl e pol
      = Inr (p', np_mean env ls', concat eps', concat tps', lats')"
    using n by (simp add: training_def it tb np_concatenate_def)
  with wide_rows_concat3 [OF w'(1) n(1)] wide_rows_concat3 [OF w'(2) n(2)] w'(3)
  show ?thesis by blast
qed

lemma validation_ok:
  assumes mo: "models_ok env vae a"
    and it: "iter_loader env dataset tel 0 = Inr batches"
    and ne: "batches \<noteq> []" and gb: "list_all (good_batch (g_latent a)) batches"
    and wl: "finite_arrays (latent_dim a) lats"
  shows "\<exists>avg vp vt lat'. validation env vae dataset tel pol lats = Inr (avg, vp, vt, lat')
    \<and> list_all (\<lambda>r. 0 < length r \<and> 1 < length r) vp
    \<and> list_all (\<lambda>r. 0 < length r \<and> 1 < length r) vt
    \<and> lat' \<noteq> [] \<and> finite_rows (latent_dim a) lat'"
proof -
  have w: "wide_rows 3 []" by (simp add: wide_rows_def)
  from val_batches_ok [OF mo gb w w wl, of pol "[]"]
  obtain ls' eps' tps' lats' where
    vb: "val_batches env vae pol batches ([], [], [], lats) = Inr (ls', eps', tps', lats')" and
    w': "wide_rows 3 eps'" "wide_rows 3 tps'" "finite_arrays (latent_dim a) lats'" and
    len: "length eps' = 2 * length batches" "length tps' = length batches"
      "length lats' = length lats + length batches"
    by auto
  from len ne have n: "eps' \<noteq> []" "tps' \<noteq> []" "lats' \<noteq> []" by auto
  have v: "validation env vae dataset tel pol lats
      = Inr (np_mean env ls', concat eps', concat tps', concat lats')"
    using n by (simp add: validation_def it vb np_concatenate_def)
  with finite_arrays_concat [OF w'(3) n(3)]
    wide_rows_concat3 [OF w'(1) n(1)] wide_rows_concat3 [OF w'(2) n(2)]
  show ?thesis by blast
qed

lemma plot_scatter_ok:
  assumes "list_all (\<lambda>r. 0 < length r \<and> 1 < length r) c"
    and "list_all (\<lambda>r. 0 < length r \<and> 1 < length r) t"
  shows "plot_scatter c t path fs = Inr ((path, Scatter c t) # fs)"
proof -
  from assms have "list_all (\<lambda>r. 0 < length r) c" "list_all (\<lambda>r. Suc 0 < length r) c"
    "list_all (\<lambda>r. 0 < length r) t" "list_all (\<lambda>r. Suc 0 < length r) t"
    by (simp_all add: list_all_iff)
  then show ?thesis by (simp add: plot_scatter_def column_def)
qed

text \<open>A histogram of finite values is drawn.\<close>

lemma is_finite_cases: "is_finite v \<Longrightarrow> v \<noteq> NaN \<and> v \<noteq> PInf \<and> v \<noteq> NInf"
  by (cases v) (simp_all add: is_finite_def)

lemma hist_finite:
  assumes "xs \<noteq> []" and "list_all is_finite xs"
  shows "hist xs = Inr ()"
proof -
  from assms obtain x where "x \<in> set xs" "x \<noteq> NaN"
    by (cases xs) (auto dest: is_finite_cases)
  then have "\<not> list_all (\<lambda>v. v = NaN) xs" by (auto simp: list_all_iff)
  moreover from assms(2) have "\<not> list_ex (\<lambda>v. v = PInf \<or> v = NInf) xs"
    by (auto simp: list_all_iff list_ex_iff dest: is_finite_cases)
  ultimately show ?thesis by (simp add: hist_def)
qed

lemma hist_columns_ok:
  assumes ne: "lat \<noteq> []" and rows: "list_all (\<lambda>r. length r = c \<and> list_all is_finite r) lat"
  shows "set cols \<subseteq> {..<c} \<Longrightarrow> hist_columns lat cols = Inr ()"
proof (induction cols)
  case Nil
  then show ?case by simp
next
  case (Cons i cols)
  then have i: "i < c" and rest: "hist_columns lat cols = Inr ()" by simp_all
  from rows i have col: "column lat i = Inr (map (\<lambda>r. r ! i) lat)"
    by (simp add: column_def list_all_iff)
  from rows i have "list_all is_finite (map (\<lambda>r. r ! i) lat)"
    by (auto simp: list_all_iff)
  with ne have "hist (map (\<lambda>r. r ! i) lat) = Inr ()"
    by (intro hist_finite) simp_all
  with col rest show ?case by simp
qed

lemma plot_latent_distributions_ok:
  assumes ne: "lat \<noteq> []" and rows: "finite_rows d lat" and d: "2 \<le> d"
  shows "plot_latent_distributions lat path fs = Inr ((path, LatentHist lat) # fs)"
proof -
  from rows d have r: "list_all (\<lambda>r. length r = nat d \<and> list_all is_finite r) lat"
    by (auto simp: finite_rows_def list_all_iff)
  with ne have n: "ncols lat = nat d" by (cases lat) (simp_all add: ncols_def)
  have "hist_columns lat [0..<nat d] = Inr ()"
    by (rule hist_columns_ok [OF ne r]) (simp add: lessThan_atLeast0)
  with n d show ?thesis by (simp add: plot_latent_distributions_def)
qed

lemma plots_ok:
  assumes tp: "list_all (\<lambda>r. 0 < length r \<and> 1 < length r) tp"
    and tt: "list_all (\<lambda>r. 0 < length r \<and> 1 < length r) tt"
    and vp: "list_all (\<lambda>r. 0 < length r \<and> 1 < length r) vp"
    and vt: "list_all (\<lambda>r. 0 < length r \<and> 1 < length r) vt"
    and lat: "lat \<noteq> []" "finite_rows d lat" "2 \<le> d"
    and len: "length (avg_val_losses st) = length (avg_train_losses st)"
  shows "\<exists>st'. plots env sp tp tt vp vt lat st = Inr st'"
proof -
  from tp vp have tv: "list_all (\<lambda>r. 0 < length r \<and> 1 < length r) (tp @ vp)" by simp
  from tt vt have tv': "list_all (\<lambda>r. 0 < length r \<and> 1 < length r) (tt @ vt)" by simp
  show ?thesis
    by (simp add: plots_def plot_scatter_ok [OF tp tt] plot_scatter_ok [OF vp vt]
        plot_scatter_ok [OF tv tv'] plot_latent_distributions_ok [OF lat] plot_loss_def len)
qed

lemma epoch_ok:
  assumes mo: "models_ok env vae a" and l2: "2 \<le> latent_dim a"
    and trl: "\<exists>batches. iter_loader env dataset trl (Suc e) = Inr batches \<and> batches \<noteq> []
        \<and> list_all (good_batch (g_latent a)) batches"
    and tel: "\<exists>batches. iter_loader env dataset tel 0 = Inr batches \<and> batches \<noteq> []
        \<and> list_all (good_batch (g_latent a)) batches"
    and len: "length (avg_val_losses st) = length (avg_train_losses st)"
  shows "\<exists>st'. epoch env vae dataset trl tel sp e st = Inr st'"
proof -
  from trl obtain tb where tb: "iter_loader env dataset trl (Suc e) = Inr tb" "tb \<noteq> []"
    "list_all (good_batch (g_latent a)) tb" by blast
  from tel obtain vb where vb: "iter_loader env dataset tel 0 = Inr vb" "vb \<noteq> []"
    "list_all (good_batch (g_latent a)) vb" by blast
  from training_ok [OF mo tb, of "policy st"] obtain pol' avg tp tt lats where
    tr: "training env vae dataset trl e (policy st) = Inr (pol', avg, tp, tt, lats)" and
    t: "list_all (\<lambda>r. 0 < length r \<and> 1 < length r) tp"
       "list_all (\<lambda>r. 0 < length r \<and> 1 < length r) tt" "finite_arrays (latent_dim a) lats"
    by blast
  from validation_ok [OF mo vb t(3), of pol'] obtain avg' vp vt lat' where
    va: "validation env vae dataset tel pol' lats = Inr (avg', vp, vt, lat')" and
    v: "list_all (\<lambda>r. 0 < length r \<and> 1 < length r) vp"
       "list_all (\<lambda>r. 0 < length r \<and> 1 < length r) vt" and
    la: "lat' \<noteq> []" "finite_rows (latent_dim a) lat'"
    by blast
  define st1 where "st1 = checkpoint sp avg'
               (st\<lparr>policy := pol',
                    avg_train_losses := avg_train_losses st @ [avg],
                    avg_val_losses := avg_val_losses st @ [avg']\<rparr>)"
  have "length (avg_val_losses st1) = length (avg_train_losses st1)"
    using len by (simp add: st1_def checkpoint_def)
  from plots_ok [OF t(1) t(2) v(1) v(2) la l2 this, of env sp]
  obtain st' where "plots env sp tp tt vp vt lat' st1 = Inr st'" by blast
  then have "epoch env vae dataset trl tel sp e st = Inr st'"
    by (simp add: epoch_def tr va st1_def)
  then show ?thesis ..
qed

lemma epoch_lengths:
  assumes "epoch env vae ds trl tel sp e st = Inr st'"
  shows "length (avg_train_losses st') = Suc (length (avg_train_losses st))
    \<and> length (avg_val_losses st') = Suc (length (avg_val_losses st))"
  using assms by (rule epoch_effect) simp

lemma epochs_ok:
  assumes mo: "models_ok env vae a" and l2: "2 \<le> latent_dim a"
    and trl: "\<And>e. \<exists>batches. iter_loader env dataset trl (Suc e) = Inr batches \<and> batches \<noteq> []
        \<and> list_all (good_batch (g_latent a)) batches"
    and tel: "\<exists>batches. iter_loader env dataset tel 0 = Inr batches \<and> batches \<noteq> []
        \<and> list_all (good_batch (g_latent a)) batches"
    and len: "length (avg_val_losses st) = length (avg_train_losses st)"
  shows "\<exists>st'. epochs env vae dataset trl tel sp es st = Inr st'
    \<and> length (avg_train_losses st') = length (avg_train_losses st) + length es
    \<and> length (avg_val_losses st') = length (avg_val_losses st) + length es"
  using len
proof (induction es arbitrary: st)
  case Nil
  then show ?case by simp
next
  case (Cons e es)
  from epoch_ok [OF mo l2 trl tel Cons.prems, of sp e] obtain st1 where
    e1: "epoch env vae dataset trl tel sp e st = Inr st1" by blast
  note l = epoch_lengths [OF e1]
  with Cons.prems have "length (avg_val_losses st1) = length (avg_train_losses st1)" by simp
  from Cons.IH [OF this] obtain st' where
    "epochs env vae dataset trl tel sp es st1 = Inr st'"
    "length (avg_train_losses st') = length (avg_train_losses st1) + length es"
    "length (avg_val_losses st') = length (avg_val_losses st1) + length es"
    by blast
  with e1 l show ?case by simp
qed

text \<open>
  Claim C3, amended. Let the model index be positive, the batch size positive, the number
  of workers not negative and the latent dimension at least 2; let the models load and
  accept batches of the configured sizes, giving finite latents for finite latents, and
  the permutations be permutations. Then for every dataset of at least two samples, with
  latents of \<^verbatim>\<open>--g-latent\<close> finite entries and 3D targets, and every \<^verbatim>\<open>--num-epoch\<close> \<open>N\<close> (a
  negative \<open>N\<close> counting as 0), \<open>main\<close> completes without an exception after exactly \<open>N\<close>
  epochs.
\<close>

theorem training_loop_completes:
  assumes mi: "0 < model_index a"
    and vae: "ROSTrajectoryVAE env (vae_name a) (latent_dim a) (num_actions a) (model_index a)
          (num_joints a) (BEHAVIOUR_ROOT env) = Inr vae"
    and pr: "Predictor env (g_latent a) (latent_dim a) = Inr pol0"
    and ad: "Adam env pol0 (lr a) = Inr pol"
    and ld: "load_dataset env (g_name a) (debug a) = Inr dataset"
    and n2: "2 \<le> length dataset"
    and tg: "list_all (\<lambda>(x, y). int (length x) = g_latent a \<and> list_all is_finite x \<and> length y = 3)
          dataset"
    and bs: "0 < batch_size a"
    and nw: "0 \<le> num_processes a"
    and l2: "2 \<le> latent_dim a"
    and perm: "\<forall>k n. is_permutation (randperm env k n) n"
    and mo: "models_ok env vae a"
  shows "\<exists>st. main env a fs0 = Inr st
    \<and> length (avg_train_losses st) = nat (num_epoch a)
    \<and> length (avg_val_losses st) = nat (num_epoch a)"
proof -
  define n where "n = length dataset"
  define p where "p = randperm env 0 n"
  define tr where "tr = train_size_of n"
  from perm have pp: "distinct p" "set p = {..<n}"
    by (simp_all add: is_permutation_def p_def)
  then have pl: "length p = n" using distinct_card [of p] by simp
  from n2 have tr1: "0 < tr" unfolding tr_def n_def by (rule train_size_of_pos)
  from n2 have "0 < length dataset" by (cases dataset) simp_all
  then have tr2: "tr < n" unfolding tr_def n_def by (rule train_size_of_less)
  define trainset where "trainset = take tr p"
  define testset where "testset = take (n - tr) (drop tr p)"
  have rs: "random_split env n (tr, n - tr) = Inr (trainset, testset)"
    using tr2 by (simp add: random_split_def Let_def p_def trainset_def testset_def)
  have trne: "trainset \<noteq> []" using tr1 tr2 pl by (auto simp: trainset_def)
  have tene: "testset \<noteq> []" using tr2 pl by (auto simp: testset_def)
  have trs: "set trainset \<subseteq> {..<n}"
    using pp(2) set_take_subset [of tr p] by (simp add: trainset_def)
  have "set testset \<subseteq> set p"
    unfolding testset_def by (meson set_take_subset set_drop_subset subset_trans)
  with pp(2) have tes: "set testset \<subseteq> {..<n}" by simp
  define trl where "trl = \<lparr>subset = trainset, batch = nat (batch_size a), shuffled = True\<rparr>"
  define tel where "tel = \<lparr>subset = testset, batch = nat (int (length testset)), shuffled = False\<rparr>"
  have dl1: "DataLoader trainset (batch_size a) True (num_processes a) = Inr trl"
    using bs nw trne by (simp add: DataLoader_def trl_def)
  have dl2: "DataLoader testset (int (length testset)) False 0 = Inr tel"
    using tene by (simp add: DataLoader_def tel_def)
  have it1: "\<exists>batches. iter_loader env dataset trl (Suc e) = Inr batches \<and> batches \<noteq> []
        \<and> list_all (good_batch (g_latent a)) batches" for e
    by (rule iter_loader_ok)
      (use perm trs trne bs tg in \<open>simp_all add: trl_def n_def\<close>)
  have it2: "\<exists>batches. iter_loader env dataset tel 0 = Inr batches \<and> batches \<noteq> []
        \<and> list_all (good_batch (g_latent a)) batches"
    by (rule iter_loader_ok)
      (use perm tes tene tg in \<open>simp_all add: tel_def n_def\<close>)
  define st0 where "st0 = initial_state pol (save_arguments a (save_path_of a) fs0)"
  have l0: "length (avg_val_losses st0) = length (avg_train_losses st0)"
    by (simp add: st0_def initial_state_def)
  from epochs_ok [OF mo l2 it1 it2 l0, of "save_path_of a" "[0..<nat (num_epoch a)]"]
  obtain st where
    ep: "epochs env vae dataset trl tel (save_path_of a) [0..<nat (num_epoch a)] st0 = Inr st" and
    ln: "length (avg_train_losses st) = nat (num_epoch a)"
        "length (avg_val_losses st) = nat (num_epoch a)"
    by (auto simp: st0_def initial_state_def)
  have "main env a fs0 = Inr st"
    using mi by (simp add: main_def Let_def vae pr ad ld rs [unfolded n_def tr_def] dl1 dl2
        ep [unfolded st0_def])
  with ln show ?thesis by blast
qed

lemma torch_mse_loss_3d:
  assumes "length x = length y" "list_all (\<lambda>r. length r = 3) x" "list_all (\<lambda>r. length r = 3) y"
  shows "\<exists>loss. torch_mse_loss x y = Inr loss"
proof -
  have "map length x = map length y"
  proof (rule nth_equalityI)
    show "length (map length x) = length (map length y)" using assms(1) by simp
    fix i assume "i < length (map length x)"
    with assms show "map length x ! i = map length y ! i" by (simp add: list_all_length)
  qed
  then show ?thesis by (simp add: torch_mse_loss_same_shape)
qed

lemma fixture_models_ok: "models_ok (fixture_env lat tgt draws) () (run_args n)"
proof -
  have "\<exists>loss. mse_loss (fixture_env lat tgt draws) x y = Inr loss"
    if "length x = length y" "list_all (\<lambda>r. length r = 3) x" "list_all (\<lambda>r. length r = 3) y"
    for x y
    using torch_mse_loss_3d [OF that] by (simp add: fixture_env_def)
  then show ?thesis
    by (simp add: models_ok_def fixture_env_def run_args_def default_args_def finite_rows_def
        is_finite_def list_all_iff)
qed

theorem training_loop_completes_witness:
  "0 < model_index (run_args 1)
   \<and> load_dataset two_samples (g_name (run_args 1)) (debug (run_args 1)) = Inr two_samples_dataset
   \<and> 2 \<le> length two_samples_dataset
   \<and> models_ok two_samples () (run_args 1)
   \<and> (\<exists>st. main two_samples (run_args 1) [] = Inr st
        \<and> length (avg_train_losses st) = 1 \<and> length (avg_val_losses st) = 1)"
proof -
  have mi: "0 < model_index (run_args 1)" by (simp add: run_defs)
  have vae: "ROSTrajectoryVAE two_samples (vae_name (run_args 1)) (latent_dim (run_args 1))
      (num_actions (run_args 1)) (model_index (run_args 1)) (num_joints (run_args 1))
      (BEHAVIOUR_ROOT two_samples) = Inr ()"
    and pr: "Predictor two_samples (g_latent (run_args 1)) (latent_dim (run_args 1)) = Inr 0"
    and ad: "Adam two_samples 0 (lr (run_args 1)) = Inr 0"
    by (simp_all add: two_samples_def fixture_env_def)
  have ld: "load_dataset two_samples (g_name (run_args 1)) (debug (run_args 1))
      = Inr two_samples_dataset"
    by (simp add: run_defs)
  have n2: "2 \<le> length two_samples_dataset"
    and tg: "list_all (\<lambda>(x, y). int (length x) = g_latent (run_args 1) \<and> list_all is_finite x
          \<and> length y = 3) two_samples_dataset"
    by (simp_all add: two_samples_dataset_def run_args_def default_args_def is_finite_def)
  have bs: "0 < batch_size (run_args 1)" and nw: "0 \<le> num_processes (run_args 1)"
    and l2: "2 \<le> latent_dim (run_args 1)"
    by (simp_all add: run_args_def default_args_def)
  have perm: "\<forall>k n. is_permutation (randperm two_samples k n) n"
    by (simp add: is_permutation_def two_samples_def fixture_env_def lessThan_atLeast0)
  have mo: "models_ok two_samples () (run_args 1)"
    unfolding two_samples_def by (rule fixture_models_ok)
  from training_loop_completes [OF mi vae pr ad ld n2 tg bs nw l2 perm mo, of "[]"]
  have "\<exists>st. main two_samples (run_args 1) [] = Inr st
        \<and> length (avg_train_losses st) = 1 \<and> length (avg_val_losses st) = 1"
    by (simp add: run_args_def default_args_def)
  with mi ld n2 mo show ?thesis by simp
qed

text \<open>Claim C3 as stated fails for a dataset of one sample: \<^verbatim>\<open>int(1 * 0.7) = 0\<close> leaves the
  training set empty, and \<open>main\<close> raises ValueError before the first epoch is completed: the
  data loader of the training set rejects the empty set (a version of torch whose loader
  accepts it raises the same exception at \<^verbatim>\<open>np.concatenate\<close> in the first epoch).\<close>

theorem single_sample_raises:
  "load_dataset one_sample (g_name (run_args 1)) (debug (run_args 1))
     = Inr [([Fin 1, Fin 2], [Fin 0, Fin 0, Fin 1])]
   \<and> train_size_of 1 = 0
   \<and> main one_sample (run_args 1) []
       = Inl (Library ValueError,
              [(''../policy_log/model_v1/arguments.txt'', Arguments (run_args 1))])"
  by (simp add: one_sample_def run_defs)

text \<open>The latents have to be finite. With latents whose first entry is NaN and a policy
  that returns its input, the first epoch raises ValueError in
  \<^verbatim>\<open>plot_latent_distributions\<close>, after the checkpoint and the three scatter plots are
  written.\<close>

lemma nan_latents_raise:
  "\<exists>fs. main nan_latents (run_args 1) [] = Inl (Library ValueError, fs)
     \<and> map fst fs =
        [''../policy_log/model_v1/full_scatter.png'', ''../policy_log/model_v1/val_scatter.png'',
         ''../policy_log/model_v1/train_scatter.png'', ''../policy_log/model_v1/model.pth.tar'',
         ''../policy_log/model_v1/arguments.txt'']"
  by (simp add: nan_latents_def run_defs)

end
